theory Spec2Isabelle
  imports Main "HOL-Library.Word"
begin

section \<open>C strings, decimal rendering and format strings\<close>

text \<open>
  The model of \<^verbatim>\<open>aten/src/TH/THGeneral.cpp\<close>. A \<^verbatim>\<open>const char *\<close> argument is a
  \<^typ>\<open>string\<close>; what C sees of it are the bytes before the first NUL.
\<close>

abbreviation NUL :: char where
  "NUL \<equiv> CHR 0x00"

definition c_str :: "string \<Rightarrow> string" where
  "c_str s = takeWhile (\<lambda>c. c \<noteq> NUL) s"

definition digit_char :: "nat \<Rightarrow> char" where
  "digit_char d = ''0123456789'' ! (d mod 10)"

fun digits :: "nat \<Rightarrow> string" where
  "digits n = (if n < 10 then [digit_char n] else digits (n div 10) @ [digit_char n])"

declare digits.simps [simp del]

text \<open>The conversions \<^verbatim>\<open>%d\<close> and \<^verbatim>\<open>%\<close>\<^verbatim>\<open>PRId64\<close>: signed decimal.\<close>

definition decimal :: "int \<Rightarrow> string" where
  "decimal i = (if i < 0 then CHR ''-'' # digits (nat (- i)) else digits (nat i))"

text \<open>
  The value an \<^verbatim>\<open>int\<close> takes from a wider integer: its low 32 bits, read as two's
  complement. \<^verbatim>\<open>%d\<close> reads its argument as an \<^verbatim>\<open>int\<close>, also where the caller has passed a
  64-bit value (as line 192 does).
\<close>

definition c_int :: "int \<Rightarrow> int" where
  "c_int i = (i + 2147483648) mod 4294967296 - 2147483648"

text \<open>
  The variadic arguments: an integer of any width, a string, or a value of another type
  (named by a number). \<open>vformat\<close> gives the meaning of the directives this file itself
  uses (\<^verbatim>\<open>%d\<close>, \<^verbatim>\<open>%s\<close>, \<^verbatim>\<open>%%\<close>); for a format with any other directive, or with a
  directive that has no argument of its kind, it has no result (\<open>None\<close>), and what the C
  library makes of such a format is a parameter of the model (\<open>libc_format\<close> below).
\<close>

datatype va_arg = ArgInt int | ArgStr string | ArgOther nat

fun vformat :: "string \<Rightarrow> va_arg list \<Rightarrow> string option" where
  "vformat [] args = Some []"
| "vformat [c] args = (if c = CHR ''%'' then None else Some [c])"
| "vformat (c # d # rest) args =
     (if c \<noteq> CHR ''%'' then map_option ((#) c) (vformat (d # rest) args)
      else if d = CHR ''%'' then map_option ((#) CHR ''%'') (vformat rest args)
      else if d = CHR ''d'' then
        (case args of
           ArgInt i # more \<Rightarrow> map_option ((@) (decimal (c_int i))) (vformat rest more)
         | _ \<Rightarrow> None)
      else if d = CHR ''s'' then
        (case args of
           ArgStr s # more \<Rightarrow> map_option ((@) (c_str s)) (vformat rest more)
         | _ \<Rightarrow> None)
      else None)"

text \<open>A format string is itself a C string.\<close>

definition format :: "string \<Rightarrow> va_arg list \<Rightarrow> string option" where
  "format fmt args = vformat (c_str fmt) args"

section \<open>Character buffers and \<^verbatim>\<open>snprintf\<close>\<close>

text \<open>
  A local \<^verbatim>\<open>char buf[N]\<close> is a list of \<open>N\<close> cells; a cell that was never written is
  \<open>None\<close>. Reading the string a buffer holds stops at the first NUL; it has no result
  when it meets an unwritten cell or the end of the array first.
\<close>

type_synonym buffer = "char option list"

definition uninit :: "nat \<Rightarrow> buffer" where
  "uninit cap = replicate cap None"

definition poke :: "buffer \<Rightarrow> nat \<Rightarrow> string \<Rightarrow> buffer" where
  "poke buf off bytes = take off buf @ map Some bytes @ drop (off + length bytes) buf"

fun read_str :: "buffer \<Rightarrow> string option" where
  "read_str [] = None"
| "read_str (None # rest) = None"
| "read_str (Some c # rest) =
     (if c = NUL then Some [] else map_option ((#) c) (read_str rest))"

datatype fault = BadFormat | OutOfBounds | Unterminated

text \<open>
  \<^verbatim>\<open>snprintf(buf + off, size, ...)\<close> with the formatted text \<open>text\<close>: at most \<open>size - 1\<close>
  characters are stored, then a NUL; nothing is stored for size 0; the result is the
  length of the whole text. The source computes the size as an \<^verbatim>\<open>int\<close> and passes it as
  a \<^verbatim>\<open>size_t\<close>: a negative value becomes a bound above every buffer, so the text is
  stored whole. A store that leaves the array is the fault \<open>OutOfBounds\<close>.
\<close>

definition snprintf :: "buffer \<Rightarrow> int \<Rightarrow> int \<Rightarrow> string \<Rightarrow> fault + (buffer \<times> int)" where
  "snprintf buf off sz text =
     (if sz = 0 then Inr (buf, int (length text))
      else
        let k = (if sz < 0 then length text else min (length text) (nat sz - 1))
        in if off < 0 \<or> int (length buf) < off + int k + 1 then Inl OutOfBounds
           else Inr (poke buf (nat off) (take k text @ [NUL]), int (length text)))"

section \<open>Program state\<close>

type_synonym tid = nat
type_synonym ptr = nat

text \<open>
  Function pointers: the static built-in handler or a handler of the embedding host,
  named by a number. A null function pointer is \<open>None\<close>; the null data pointer is 0.
\<close>

datatype THErrorHandlerFunction = DefaultErrorHandlerFunction | HostErrorHandler nat

datatype THArgErrorHandlerFunction = DefaultArgErrorHandlerFunction | HostArgErrorHandler nat

text \<open>What the program does to the world outside it, in order.\<close>

datatype event =
    EvPrintf string
  | EvExit int
  | EvErrorHandler nat string ptr
  | EvArgErrorHandler nat int "string option" ptr
  | EvGC nat ptr
  | EvRealloc ptr int ptr
  | EvFree ptr
  | EvAllocCpu int

datatype alloc_answer = Block ptr | AllocRaises

text \<open>
  What \<^verbatim>\<open>vsnprintf\<close> makes of a format and its arguments: the whole formatted text, or a
  failure, where it returns a negative value (\<open>FormatFails k\<close> stands for the return value
  \<open>- 1 - k\<close>).
\<close>

datatype fmt_result = Formatted string | FormatFails nat

text \<open>
  The static variables of the file; a \<^verbatim>\<open>__thread\<close> variable is a function of the
  thread (the build with \<^verbatim>\<open>TH_HAVE_THREAD\<close>; without it \<^verbatim>\<open>__thread\<close> is empty and there
  is one thread's worth of each). The system heap is outside the program: \<open>realloc_script\<close> holds the answers
  of the coming \<^verbatim>\<open>realloc\<close> calls (0 is failure, as is an exhausted script) and
  \<open>alloc_script\<close> those of \<^verbatim>\<open>c10::alloc_cpu\<close>. The C library is outside the program too:
  \<open>libc_format\<close> is what its formatter makes of the formats that \<open>vformat\<close> does not
  cover; it is arbitrary, and no function changes it.
\<close>

record th_state =
  defaultErrorHandler :: THErrorHandlerFunction
  defaultErrorHandlerData :: ptr
  threadErrorHandler :: "tid \<Rightarrow> THErrorHandlerFunction option"
  threadErrorHandlerData :: "tid \<Rightarrow> ptr"
  defaultArgErrorHandler :: THArgErrorHandlerFunction
  defaultArgErrorHandlerData :: ptr
  threadArgErrorHandler :: "tid \<Rightarrow> THArgErrorHandlerFunction option"
  threadArgErrorHandlerData :: "tid \<Rightarrow> ptr"
  torchGCFunction :: "tid \<Rightarrow> nat option"
  torchGCData :: "tid \<Rightarrow> ptr"
  realloc_script :: "ptr list"
  alloc_script :: "alloc_answer list"
  trace :: "event list"
  libc_format :: "string \<Rightarrow> va_arg list \<Rightarrow> fmt_result"

text \<open>
  The state at the start of the program, given the answers of the system heap. Its library
  is one among all (it fails on every format that \<open>vformat\<close> does not cover); the
  theorems hold for every state, so for every library.
\<close>

definition initial_state :: "ptr list \<Rightarrow> alloc_answer list \<Rightarrow> th_state" where
  "initial_state rs as =
     \<lparr> defaultErrorHandler = DefaultErrorHandlerFunction,
       defaultErrorHandlerData = 0,
       threadErrorHandler = (\<lambda>_. None),
       threadErrorHandlerData = (\<lambda>_. 0),
       defaultArgErrorHandler = DefaultArgErrorHandlerFunction,
       defaultArgErrorHandlerData = 0,
       threadArgErrorHandler = (\<lambda>_. None),
       threadArgErrorHandlerData = (\<lambda>_. 0),
       torchGCFunction = (\<lambda>_. None),
       torchGCData = (\<lambda>_. 0),
       realloc_script = rs,
       alloc_script = as,
       trace = [],
       libc_format = (\<lambda>_ _. FormatFails 0) \<rparr>"

definition emit :: "event list \<Rightarrow> th_state \<Rightarrow> th_state" where
  "emit es s = s\<lparr>trace := trace s @ es\<rparr>"

text \<open>
  How a call ends: it returns a value, or control never comes back to the caller
  (the process exited, or a host handler took over), or it left the model by a fault.
\<close>

datatype 'a outcome = Returns 'a | NoReturn | Fault fault

fun seq :: "'a outcome \<times> th_state \<Rightarrow> ('a \<Rightarrow> th_state \<Rightarrow> 'b outcome \<times> th_state)
    \<Rightarrow> 'b outcome \<times> th_state" where
  "seq (Returns x, s) k = k x s"
| "seq (NoReturn, s) k = (NoReturn, s)"
| "seq (Fault f, s) k = (Fault f, s)"

text \<open>
  The formatting of \<^verbatim>\<open>vsnprintf(msg, cap, fmt, args)\<close>: by \<open>vformat\<close> where that covers the
  format, by the library otherwise; a text longer than \<^verbatim>\<open>INT_MAX\<close> has no length to return
  and fails. On success the text is stored as \<open>snprintf\<close> stores it and its length is
  returned; on failure the result is negative and the buffer holds nothing that may be
  read.
\<close>

definition formatted :: "th_state \<Rightarrow> string \<Rightarrow> va_arg list \<Rightarrow> fmt_result" where
  "formatted s fmt args =
     (case (case format fmt args of
              Some out \<Rightarrow> Formatted out
            | None \<Rightarrow> libc_format s fmt args) of
        Formatted out \<Rightarrow> if length out \<le> 2147483647 then Formatted out else FormatFails 0
      | FormatFails k \<Rightarrow> FormatFails k)"

definition vsnprintf :: "nat \<Rightarrow> fmt_result \<Rightarrow> fault + (buffer \<times> int)" where
  "vsnprintf cap r =
     (case r of
        Formatted out \<Rightarrow> snprintf (uninit cap) 0 (int cap) out
      | FormatFails k \<Rightarrow> Inr (uninit cap, - 1 - int k))"

section \<open>Torch error handling\<close>

text \<open>
  The functions \<^verbatim>\<open>_THError\<close>, \<^verbatim>\<open>_THAssertionFailed\<close>, \<^verbatim>\<open>_THArgCheck\<close> and \<^verbatim>\<open>_THSizeDesc\<close>
  are \<open>THError\<close>, \<open>THAssertionFailed\<close>, \<open>THArgCheck\<close> and \<open>THSizeDesc\<close> here (a name
  cannot begin with an underscore). Every function takes the calling thread \<open>t\<close> where it
  reads or writes a \<^verbatim>\<open>__thread\<close> variable.
\<close>

definition defaultErrorHandlerFunction :: "string \<Rightarrow> ptr \<Rightarrow> th_state \<Rightarrow> 'a outcome \<times> th_state" where
  "defaultErrorHandlerFunction msg data s =
     (case format ''$ Error: %s\<newline>'' [ArgStr msg] of
        None \<Rightarrow> (Fault BadFormat, s)
      | Some out \<Rightarrow> (NoReturn, emit [EvPrintf out, EvExit (- 1)] s))"

text \<open>
  Modelled from the spec: the handler contract and \<^verbatim>\<open>TH_UNREACHABLE\<close> (a macro of
  \<^verbatim>\<open>THGeneral.h\<close>, which is not part of the sources). A host handler "must not return
  control normally to the raising call", so the call of one ends the caller's path.
\<close>

fun call_error_handler :: "THErrorHandlerFunction \<Rightarrow> string \<Rightarrow> ptr \<Rightarrow> th_state
    \<Rightarrow> 'a outcome \<times> th_state" where
  "call_error_handler DefaultErrorHandlerFunction msg data s =
     defaultErrorHandlerFunction msg data s"
| "call_error_handler (HostErrorHandler h) msg data s =
     (NoReturn, emit [EvErrorHandler h msg data] s)"

text \<open>
  Lines 45 to 56 of \<^verbatim>\<open>_THError\<close>, repeated as lines 107 to 118 of \<^verbatim>\<open>_THArgCheck\<close>: the
  text goes into \<^verbatim>\<open>char msg[2048]\<close>, and the location follows it when \<open>n < 2048\<close>. The
  source does not test \<open>n < 0\<close>: after a failed \<^verbatim>\<open>vsnprintf\<close> the location is stored at
  \<^verbatim>\<open>msg + n\<close>, in front of the array.
\<close>

definition build_msg :: "th_state \<Rightarrow> string \<Rightarrow> int \<Rightarrow> string \<Rightarrow> va_arg list
    \<Rightarrow> fault + buffer" where
  "build_msg s file line fmt args =
     (case vsnprintf 2048 (formatted s fmt args) of
        Inl f \<Rightarrow> Inl f
      | Inr (msg, n) \<Rightarrow>
          if n < 2048 then
            (case format '' at %s:%d'' [ArgStr file, ArgInt line] of
               None \<Rightarrow> Inl BadFormat
             | Some loc \<Rightarrow>
                 (case snprintf msg n (2048 - n) loc of
                    Inl f \<Rightarrow> Inl f
                  | Inr (msg', _) \<Rightarrow> Inr msg'))
          else Inr msg)"

definition THError :: "tid \<Rightarrow> string \<Rightarrow> int \<Rightarrow> string \<Rightarrow> va_arg list \<Rightarrow> th_state
    \<Rightarrow> 'a outcome \<times> th_state" where
  "THError t file line fmt args s =
     (case build_msg s file line fmt args of
        Inl f \<Rightarrow> (Fault f, s)
      | Inr msg \<Rightarrow>
          (case read_str msg of
             None \<Rightarrow> (Fault Unterminated, s)
           | Some m \<Rightarrow>
               (case threadErrorHandler s t of
                  Some h \<Rightarrow> call_error_handler h m (threadErrorHandlerData s t) s
                | None \<Rightarrow> call_error_handler (defaultErrorHandler s) m (defaultErrorHandlerData s) s)))"

text \<open>
  \<^verbatim>\<open>_THAssertionFailed\<close> does not look at what \<^verbatim>\<open>vsnprintf\<close> returns; it hands
  \<^verbatim>\<open>char msg[1024]\<close> to \<^verbatim>\<open>%s\<close>, which reads it up to its first NUL.
\<close>

definition THAssertionFailed :: "tid \<Rightarrow> string \<Rightarrow> int \<Rightarrow> string \<Rightarrow> string \<Rightarrow> va_arg list
    \<Rightarrow> th_state \<Rightarrow> 'a outcome \<times> th_state" where
  "THAssertionFailed t file line exp fmt args s =
     (case vsnprintf 1024 (formatted s fmt args) of
        Inl f \<Rightarrow> (Fault f, s)
      | Inr (msg, _) \<Rightarrow>
          (case read_str msg of
             None \<Rightarrow> (Fault Unterminated, s)
           | Some m \<Rightarrow>
               THError t file line ''Assertion `%s' failed. %s'' [ArgStr exp, ArgStr m] s))"

definition THSetErrorHandler :: "tid \<Rightarrow> THErrorHandlerFunction option \<Rightarrow> ptr \<Rightarrow> th_state
    \<Rightarrow> th_state" where
  "THSetErrorHandler t new_handler data s =
     s\<lparr>threadErrorHandler := (threadErrorHandler s)(t := new_handler),
       threadErrorHandlerData := (threadErrorHandlerData s)(t := data)\<rparr>"

definition THSetDefaultErrorHandler :: "THErrorHandlerFunction option \<Rightarrow> ptr \<Rightarrow> th_state
    \<Rightarrow> th_state" where
  "THSetDefaultErrorHandler new_handler data s =
     (case new_handler of
        Some h \<Rightarrow> s\<lparr>defaultErrorHandler := h\<rparr>
      | None \<Rightarrow> s\<lparr>defaultErrorHandler := DefaultErrorHandlerFunction\<rparr>)
     \<lparr>defaultErrorHandlerData := data\<rparr>"

section \<open>Torch argument checking\<close>

definition defaultArgErrorHandlerFunction :: "int \<Rightarrow> string option \<Rightarrow> ptr \<Rightarrow> th_state
    \<Rightarrow> 'a outcome \<times> th_state" where
  "defaultArgErrorHandlerFunction argNumber msg data s =
     (case (case msg of
              Some m \<Rightarrow> format ''$ Invalid argument %d: %s\<newline>'' [ArgInt argNumber, ArgStr m]
            | None \<Rightarrow> format ''$ Invalid argument %d\<newline>'' [ArgInt argNumber]) of
        None \<Rightarrow> (Fault BadFormat, s)
      | Some out \<Rightarrow> (NoReturn, emit [EvPrintf out, EvExit (- 1)] s))"

fun call_arg_error_handler :: "THArgErrorHandlerFunction \<Rightarrow> int \<Rightarrow> string option \<Rightarrow> ptr
    \<Rightarrow> th_state \<Rightarrow> 'a outcome \<times> th_state" where
  "call_arg_error_handler DefaultArgErrorHandlerFunction argNumber msg data s =
     defaultArgErrorHandlerFunction argNumber msg data s"
| "call_arg_error_handler (HostArgErrorHandler h) argNumber msg data s =
     (NoReturn, emit [EvArgErrorHandler h argNumber msg data] s)"

definition THArgCheck :: "tid \<Rightarrow> string \<Rightarrow> int \<Rightarrow> int \<Rightarrow> int \<Rightarrow> string \<Rightarrow> va_arg list
    \<Rightarrow> th_state \<Rightarrow> unit outcome \<times> th_state" where
  "THArgCheck t file line condition argNumber fmt args s =
     (if condition = 0 then
        (case build_msg s file line fmt args of
           Inl f \<Rightarrow> (Fault f, s)
         | Inr msg \<Rightarrow>
             (case read_str msg of
                None \<Rightarrow> (Fault Unterminated, s)
              | Some m \<Rightarrow>
                  (case threadArgErrorHandler s t of
                     Some h \<Rightarrow>
                       call_arg_error_handler h argNumber (Some m) (threadArgErrorHandlerData s t) s
                   | None \<Rightarrow>
                       call_arg_error_handler (defaultArgErrorHandler s) argNumber (Some m)
                         (defaultArgErrorHandlerData s) s)))
      else (Returns (), s))"


definition THSetDefaultArgErrorHandler :: "THArgErrorHandlerFunction option \<Rightarrow> ptr
    \<Rightarrow> th_state \<Rightarrow> th_state" where
  "THSetDefaultArgErrorHandler new_handler data s =
     (case new_handler of
        Some h \<Rightarrow> s\<lparr>defaultArgErrorHandler := h\<rparr>
      | None \<Rightarrow> s\<lparr>defaultArgErrorHandler := DefaultArgErrorHandlerFunction\<rparr>)
     \<lparr>defaultArgErrorHandlerData := data\<rparr>"

section \<open>The allocator\<close>

definition THSetGCHandler :: "tid \<Rightarrow> nat option \<Rightarrow> ptr \<Rightarrow> th_state \<Rightarrow> th_state" where
  "THSetGCHandler t torchGCFunction' data s =
     s\<lparr>torchGCFunction := (torchGCFunction s)(t := torchGCFunction'),
       torchGCData := (torchGCData s)(t := data)\<rparr>"

text \<open>
  Modelled from the spec: \<^verbatim>\<open>c10::alloc_cpu\<close> (declared in \<^verbatim>\<open>c10/core/CPUAllocator.h\<close>, which
  is not part of the sources). It answers with a block, or the failure "surfaces as a fatal
  error raised by the underlying layer", and then control does not come back. \<^verbatim>\<open>THAlloc\<close>
  returns the answer as it is.
\<close>

definition alloc_cpu :: "int \<Rightarrow> th_state \<Rightarrow> ptr outcome \<times> th_state" where
  "alloc_cpu nbytes s =
     (case alloc_script s of
        Block p # rest \<Rightarrow> (Returns p, emit [EvAllocCpu nbytes] (s\<lparr>alloc_script := rest\<rparr>))
      | AllocRaises # rest \<Rightarrow> (NoReturn, emit [EvAllocCpu nbytes] (s\<lparr>alloc_script := rest\<rparr>))
      | [] \<Rightarrow> (NoReturn, emit [EvAllocCpu nbytes] s))"

definition realloc :: "ptr \<Rightarrow> int \<Rightarrow> th_state \<Rightarrow> ptr \<times> th_state" where
  "realloc p sz s =
     (case realloc_script s of
        r # rest \<Rightarrow> (r, emit [EvRealloc p sz r] (s\<lparr>realloc_script := rest\<rparr>))
      | [] \<Rightarrow> (0, emit [EvRealloc p sz 0] s))"

definition free :: "ptr \<Rightarrow> th_state \<Rightarrow> th_state" where
  "free p s = emit [EvFree p] s"

text \<open>
  The hook of the host "returns normally (the allocator retries after it returns)"; the
  model records the call. What the hook frees shows in the answer of the next
  \<^verbatim>\<open>realloc\<close>.
\<close>

definition call_gc :: "nat \<Rightarrow> ptr \<Rightarrow> th_state \<Rightarrow> th_state" where
  "call_gc g data s = emit [EvGC g data] s"

text \<open>C's division of integers rounds towards zero.\<close>

definition c_div :: "int \<Rightarrow> int \<Rightarrow> int" where
  "c_div a b = (if (a < 0) = (b < 0) then \<bar>a\<bar> div \<bar>b\<bar> else - (\<bar>a\<bar> div \<bar>b\<bar>))"

text \<open>
  \<^verbatim>\<open>THError(...)\<close> is the macro \<^verbatim>\<open>_THError(__FILE__, __LINE__, ...)\<close>; the expansion of
  \<^verbatim>\<open>__FILE__\<close> depends on the build and is the parameter \<open>file\<close>. Sizes are
  \<^verbatim>\<open>ptrdiff_t\<close>; no arithmetic on them can overflow here (the only one is the division of
  a positive size in line 192). The quotient is a 64-bit argument of \<^verbatim>\<open>%d\<close>, which prints
  its low 32 bits (\<open>c_int\<close>).
\<close>

definition THAlloc :: "string \<Rightarrow> tid \<Rightarrow> int \<Rightarrow> th_state \<Rightarrow> ptr outcome \<times> th_state" where
  "THAlloc file t sz s =
     seq (if sz < 0 then
            THError t file 165 ''$ Torch: invalid memory size -- maybe an overflow?'' [] s
          else (Returns (), s))
       (\<lambda>_. alloc_cpu sz)"

definition THFree :: "ptr \<Rightarrow> th_state \<Rightarrow> th_state" where
  "THFree p s = free p s"

definition THRealloc :: "string \<Rightarrow> tid \<Rightarrow> ptr \<Rightarrow> int \<Rightarrow> th_state \<Rightarrow> ptr outcome \<times> th_state" where
  "THRealloc file t p sz s =
     (if p = 0 then THAlloc file t sz s
      else if sz = 0 then (Returns 0, THFree p s)
      else
        seq (if sz < 0 then
               THError t file 182 ''$ Torch: invalid memory size -- maybe an overflow?'' [] s
             else (Returns (), s))
          (\<lambda>_ s1.
             let (newptr, s2) = realloc p sz s1;
                 (newptr, s3) =
                   (case torchGCFunction s2 t of
                      Some g \<Rightarrow>
                        if newptr = 0 then realloc p sz (call_gc g (torchGCData s2 t) s2)
                        else (newptr, s2)
                    | None \<Rightarrow> (newptr, s2))
             in seq (if newptr = 0 then
                       THError t file 192
                         ''$ Torch: not enough memory: you tried to reallocate %dGB. Buy new RAM!''
                         [ArgInt (c_div sz 1073741824)] s3
                     else (Returns (), s3))
                  (\<lambda>_ s4. (Returns newptr, s4))))"

section \<open>The descriptive buffer\<close>

text \<open>
  \<^verbatim>\<open>TH_DESC_BUFF_LEN\<close> is a constant of \<^verbatim>\<open>THGeneral.h\<close>, which is not part of the
  sources; it is the parameter \<open>L\<close>. The dimensions are \<^verbatim>\<open>int64_t\<close>; the loop reads
  \<^verbatim>\<open>size[i]\<close>, and a read outside the array the caller passed is a fault.
\<close>

function THSizeDesc_loop :: "int \<Rightarrow> 64 word list \<Rightarrow> int \<Rightarrow> int \<Rightarrow> int \<Rightarrow> buffer
    \<Rightarrow> fault + (int \<times> buffer)" where
  "THSizeDesc_loop L sizes ndim i n str =
     (if i < ndim then
        if n \<ge> L then Inr (n, str)
        else if i < 0 \<or> int (length sizes) \<le> i then Inl OutOfBounds
        else
          (case snprintf str n (L - n) (decimal (sint (sizes ! nat i))) of
             Inl f \<Rightarrow> Inl f
           | Inr (str1, r1) \<Rightarrow>
               if i < ndim - 1 then
                 (case snprintf str1 (n + r1) (L - (n + r1)) '' x '' of
                    Inl f \<Rightarrow> Inl f
                  | Inr (str2, r2) \<Rightarrow> THSizeDesc_loop L sizes ndim (i + 1) (n + r1 + r2) str2)
               else THSizeDesc_loop L sizes ndim (i + 1) (n + r1) str1)
      else Inr (n, str))"
  by pat_completeness auto
termination
  by (relation "measure (\<lambda>(L, sizes, ndim, i, n, str). nat (ndim - i))") auto

declare THSizeDesc_loop.simps [simp del]

definition THSizeDesc :: "nat \<Rightarrow> 64 word list \<Rightarrow> int \<Rightarrow> fault + buffer" where
  "THSizeDesc L sizes ndim =
     (case snprintf (uninit L) 0 (int L) ''['' of
        Inl f \<Rightarrow> Inl f
      | Inr (str0, n0) \<Rightarrow>
          (case THSizeDesc_loop (int L) sizes ndim 0 n0 str0 of
             Inl f \<Rightarrow> Inl f
           | Inr (n, str) \<Rightarrow>
               if n < int L - 2 then
                 (case snprintf str n (int L - n) '']'' of
                    Inl f \<Rightarrow> Inl f
                  | Inr (str', _) \<Rightarrow> Inr str')
               else
                 (case snprintf str (int L - 5) 5 ''...]'' of
                    Inl f \<Rightarrow> Inl f
                  | Inr (str', _) \<Rightarrow> Inr str')))"

section \<open>Notions for the statements\<close>

subsection \<open>Reports\<close>

text \<open>
  In the words of the specification: the location suffix, the bounded message, the handler
  in force on a thread (the thread-local override if present, else the process-wide
  default), and what the call of a handler shows to the outside.
\<close>

definition location :: "string \<Rightarrow> int \<Rightarrow> string" where
  "location file line = '' at '' @ c_str file @ '':'' @ decimal line"

definition active_error_handler :: "th_state \<Rightarrow> tid \<Rightarrow> THErrorHandlerFunction \<times> ptr" where
  "active_error_handler s t =
     (case threadErrorHandler s t of
        Some h \<Rightarrow> (h, threadErrorHandlerData s t)
      | None \<Rightarrow> (defaultErrorHandler s, defaultErrorHandlerData s))"

definition active_arg_error_handler :: "th_state \<Rightarrow> tid \<Rightarrow> THArgErrorHandlerFunction \<times> ptr" where
  "active_arg_error_handler s t =
     (case threadArgErrorHandler s t of
        Some h \<Rightarrow> (h, threadArgErrorHandlerData s t)
      | None \<Rightarrow> (defaultArgErrorHandler s, defaultArgErrorHandlerData s))"

definition error_message :: "string \<Rightarrow> int \<Rightarrow> string \<Rightarrow> string" where
  "error_message file line out = take 2047 (out @ location file line)"

text \<open>
  What a handler reads of \<^verbatim>\<open>msg\<close>: the line number is an \<^verbatim>\<open>int\<close>, and the message ends at
  the first NUL, should the formatted text hold one (as \<^verbatim>\<open>%c\<close> can produce).
\<close>

definition report_text :: "string \<Rightarrow> int \<Rightarrow> string \<Rightarrow> string" where
  "report_text file line out = c_str (error_message file (c_int line) out)"

fun error_events :: "THErrorHandlerFunction \<times> ptr \<Rightarrow> string \<Rightarrow> event list" where
  "error_events (DefaultErrorHandlerFunction, d) m =
     [EvPrintf (''$ Error: '' @ m @ ''\<newline>''), EvExit (- 1)]"
| "error_events (HostErrorHandler h, d) m = [EvErrorHandler h m d]"

fun arg_error_events :: "THArgErrorHandlerFunction \<times> ptr \<Rightarrow> int \<Rightarrow> string \<Rightarrow> event list" where
  "arg_error_events (DefaultArgErrorHandlerFunction, d) k m =
     [EvPrintf (''$ Invalid argument '' @ decimal (c_int k) @ '': '' @ m @ ''\<newline>''),
      EvExit (- 1)]"
| "arg_error_events (HostArgErrorHandler h, d) k m = [EvArgErrorHandler h k (Some m) d]"

definition invalid_size_text :: string where
  "invalid_size_text = ''$ Torch: invalid memory size -- maybe an overflow?''"

subsection \<open>Reallocation\<close>

text \<open>
  The answer the system gives to the next \<^verbatim>\<open>realloc\<close>, the text of the out-of-memory
  report, and the events a call has added to the trace.
\<close>

definition next_answer :: "ptr list \<Rightarrow> ptr" where
  "next_answer script = (case script of [] \<Rightarrow> 0 | r # _ \<Rightarrow> r)"

definition oom_text :: "int \<Rightarrow> string" where
  "oom_text sz = ''$ Torch: not enough memory: you tried to reallocate ''
     @ decimal (c_int (c_div sz 1073741824)) @ ''GB. Buy new RAM!''"

fun is_gc_call :: "event \<Rightarrow> bool" where
  "is_gc_call (EvGC g d) = True"
| "is_gc_call _ = False"

fun is_realloc_call :: "event \<Rightarrow> bool" where
  "is_realloc_call (EvRealloc p sz r) = True"
| "is_realloc_call _ = False"

definition new_events :: "th_state \<Rightarrow> th_state \<Rightarrow> event list" where
  "new_events s s' = drop (length (trace s)) (trace s')"

definition assertion_text :: "string \<Rightarrow> string \<Rightarrow> string" where
  "assertion_text exp explanation =
     ''Assertion `'' @ c_str exp @ [CHR 0x27] @ '' failed. '' @ c_str explanation"

subsection \<open>States and inputs of the examples\<close>

text \<open>
  \<open>two_threads\<close>: thread 1 has registered an error handler of its own, thread 2 has not,
  and the host has replaced the default argument-error handler. \<open>with_gc\<close>: thread 1 has
  a GC hook, and the system will fail the next \<^verbatim>\<open>realloc\<close> and answer the one after with
  block 9. \<open>host_default\<close>: the host has registered default handler 1 with data 7.
\<close>

definition two_threads :: th_state where
  "two_threads =
     THSetErrorHandler 1 (Some (HostErrorHandler 7)) 99
       (THSetDefaultArgErrorHandler (Some (HostArgErrorHandler 5)) 44 (initial_state [] []))"

definition with_gc :: th_state where
  "with_gc = THSetGCHandler 1 (Some 4) 77 (initial_state [0, 9] [])"

definition host_default :: th_state where
  "host_default = THSetDefaultErrorHandler (Some (HostErrorHandler 1)) 7 (initial_state [] [])"

definition long_explanation :: string where
  "long_explanation = replicate 1024 CHR ''a''"

text \<open>
  \<open>long_text\<close>: 2040 characters, which leave room for seven more in \<^verbatim>\<open>msg[2048]\<close>.
  \<open>with_libc\<close>: a library whose formatter makes "42 items" of \<^verbatim>\<open>%ld items\<close> and 42, and
  fails on every other format that \<open>vformat\<close> does not cover.
\<close>

definition long_text :: string where
  "long_text = replicate 2040 CHR ''a''"

definition with_libc :: th_state where
  "with_libc = (initial_state [] [])
     \<lparr>libc_format := (\<lambda>fmt args. if fmt = ''%ld items'' \<and> args = [ArgInt 42]
                                  then Formatted ''42 items'' else FormatFails 0)\<rparr>"

subsection \<open>The description of a shape\<close>

text \<open>
  The description "[d0 x d1 x ... x dn]" of the specification; what round \<open>k\<close> of the loop
  formats and what the rounds from \<open>i\<close> on format together; and the invariant of the loop:
  the buffer holds what was formatted so far, cut at \<open>L - 1\<close> characters and terminated.
\<close>

fun join_dims :: "string list \<Rightarrow> string" where
  "join_dims [] = []"
| "join_dims [a] = a"
| "join_dims (a # b # r) = a @ '' x '' @ join_dims (b # r)"

definition size_desc :: "64 word list \<Rightarrow> string" where
  "size_desc sizes = ''['' @ join_dims (map (\<lambda>d. decimal (sint d)) sizes) @ '']''"

definition piece :: "64 word list \<Rightarrow> int \<Rightarrow> nat \<Rightarrow> string" where
  "piece sizes ndim k =
     decimal (sint (sizes ! k)) @ (if int k < ndim - 1 then '' x '' else [])"

definition pending :: "64 word list \<Rightarrow> int \<Rightarrow> nat \<Rightarrow> string" where
  "pending sizes ndim i = concat (map (piece sizes ndim) [i ..< nat ndim])"

definition holds :: "nat \<Rightarrow> string \<Rightarrow> buffer \<Rightarrow> bool" where
  "holds L R str \<longleftrightarrow>
     length str = L \<and> NUL \<notin> set R \<and> (\<exists>rest. str = map Some (take (L - 1) R) @ Some NUL # rest)"


section \<open>Strings and buffers\<close>

lemma c_str_no_NUL: "NUL \<notin> set (c_str s)"
  unfolding c_str_def by (induction s) auto

lemma c_str_id: "NUL \<notin> set s \<Longrightarrow> c_str s = s"
  unfolding c_str_def by (induction s) auto

lemma digit_char_no_NUL: "digit_char d \<noteq> NUL"
proof -
  have "''0123456789'' ! (d mod 10) \<in> set ''0123456789''"
    by (rule nth_mem) simp
  moreover have "NUL \<notin> set ''0123456789''" by simp
  ultimately show ?thesis unfolding digit_char_def by metis
qed

lemma digits_no_NUL: "NUL \<notin> set (digits n)"
proof (induction n rule: digits.induct)
  case (1 n)
  then show ?case
    by (cases "n < 10") (simp_all add: digits.simps [of n] digit_char_no_NUL [symmetric])
qed

lemma decimal_no_NUL: "NUL \<notin> set (decimal i)"
  by (simp add: decimal_def digits_no_NUL)

lemma vformat_no_NUL:
  "vformat f args = Some out \<Longrightarrow> NUL \<notin> set f \<Longrightarrow> NUL \<notin> set out"
proof (induction f args arbitrary: out rule: vformat.induct)
  case (1 args)
  then show ?case by simp
next
  case (2 c args)
  then show ?case by (auto split: if_splits)
next
  case (3 c d rest args)
  then show ?case
    by (auto split: if_splits list.splits va_arg.splits simp: c_str_no_NUL decimal_no_NUL)
qed

lemma format_no_NUL: "format fmt args = Some out \<Longrightarrow> NUL \<notin> set out"
  unfolding format_def by (rule vformat_no_NUL) (auto simp: c_str_no_NUL)

lemma read_str_c_str: "read_str (map Some xs @ Some NUL # rest) = Some (c_str xs)"
  by (induction xs) (auto simp: c_str_def)

lemma read_str_terminated:
  "NUL \<notin> set xs \<Longrightarrow> read_str (map Some xs @ Some NUL # rest) = Some xs"
  by (simp add: read_str_c_str c_str_id)

lemma c_str_idem: "c_str (c_str x) = c_str x"
  by (rule c_str_id) (rule c_str_no_NUL)

lemma c_int_id: "- 2147483648 \<le> i \<Longrightarrow> i < 2147483648 \<Longrightarrow> c_int i = i"
  by (simp add: c_int_def)

lemma c_int_range: "- 2147483648 \<le> c_int i \<and> c_int i < 2147483648"
  unfolding c_int_def by simp

lemma length_digits: "0 < k \<Longrightarrow> n < 10 ^ k \<Longrightarrow> length (digits n) \<le> k"
proof (induction k arbitrary: n)
  case 0
  then show ?case by simp
next
  case (Suc k)
  show ?case
  proof (cases "n < 10")
    case True
    then show ?thesis by (simp add: digits.simps [of n])
  next
    case False
    with Suc.prems have k: "0 < k" by (cases k) simp_all
    from Suc.prems have "n div 10 < 10 ^ k" by (simp add: less_mult_imp_div_less mult.commute)
    from Suc.IH [OF k this] False show ?thesis by (simp add: digits.simps [of n])
  qed
qed

lemma length_decimal_c_int: "length (decimal (c_int i)) \<le> 11"
proof -
  have "nat \<bar>c_int i\<bar> < 10 ^ 10" using c_int_range [of i] by (simp add: abs_if) linarith
  then have "length (digits (nat \<bar>c_int i\<bar>)) \<le> 10" by (intro length_digits) simp_all
  then show ?thesis by (auto simp: decimal_def abs_if)
qed

lemma format_location:
  "format '' at %s:%d'' [ArgStr file, ArgInt line] = Some (location file (c_int line))"
  by (simp add: format_def c_str_def location_def)

lemma location_no_NUL: "NUL \<notin> set (location file line)"
  by (simp add: location_def c_str_no_NUL decimal_no_NUL)

lemma snprintf_uninit:
  assumes "0 < cap"
  shows "snprintf (uninit cap) 0 (int cap) out
     = Inr (map Some (take (cap - 1) out) @ Some NUL # replicate (cap - 1 - length (take (cap - 1) out)) None,
            int (length out))"
  using assms by (auto simp: snprintf_def uninit_def poke_def Let_def min_def)

lemma snprintf_append:
  assumes "length pre < cap" and "length rest = cap - Suc (length pre)"
  shows "snprintf (map Some pre @ Some NUL # rest) (int (length pre)) (int cap - int (length pre)) out
     = Inr (map Some (pre @ take (cap - Suc (length pre)) out)
              @ Some NUL # drop (length (take (cap - Suc (length pre)) out)) rest,
            int (length out))"
proof -
  have e: "nat (int cap - int (length pre)) - Suc 0 = cap - Suc (length pre)"
    using assms(1) by arith
  show ?thesis
    using assms by (auto simp: snprintf_def poke_def Let_def min_def e)
qed

lemma formatted_subset:
  "format fmt args = Some out \<Longrightarrow> length out \<le> 2147483647 \<Longrightarrow> formatted s fmt args = Formatted out"
  by (simp add: formatted_def)

lemma formatted_length: "formatted s fmt args = Formatted out \<Longrightarrow> length out \<le> 2147483647"
  by (auto simp: formatted_def split: option.splits fmt_result.splits if_splits)

lemma report_text_plain:
  "NUL \<notin> set out \<Longrightarrow> report_text file line out = error_message file (c_int line) out"
  unfolding report_text_def error_message_def
  using location_no_NUL by (intro c_str_id) (auto dest: in_set_takeD)

lemma report_text_no_NUL: "NUL \<notin> set (report_text file line out)"
  by (simp add: report_text_def c_str_no_NUL)

lemma length_c_str: "length (c_str x) \<le> length x"
  by (simp add: c_str_def length_takeWhile_le)

lemma report_text_length: "length (report_text file line out) < 2048"
proof -
  have "length (report_text file line out) \<le> length (error_message file (c_int line) out)"
    unfolding report_text_def by (rule length_c_str)
  also have "\<dots> < 2048" by (simp add: error_message_def)
  finally show ?thesis .
qed

section \<open>What the report functions do\<close>

text \<open>
  When \<^verbatim>\<open>vsnprintf\<close> has formatted the text, the handler in force is called with the
  bounded message. When it has failed, \<open>n\<close> is negative, the test \<open>n < 2048\<close> holds, and
  the location is stored in front of \<^verbatim>\<open>msg\<close>: the call leaves the model with the fault
  \<open>OutOfBounds\<close> before any handler is looked up.
\<close>

lemma build_msg_read:
  assumes "formatted s fmt args = Formatted out"
  shows "\<exists>msg. build_msg s file line fmt args = Inr msg
           \<and> read_str msg = Some (report_text file line out)"
proof -
  let ?loc = "location file (c_int line)"
  have s1: "vsnprintf 2048 (formatted s fmt args)
      = Inr (map Some (take 2047 out) @ Some NUL # replicate (2047 - length (take 2047 out)) None,
             int (length out))"
    using snprintf_uninit [of 2048 out] by (simp add: vsnprintf_def assms)
  show ?thesis
  proof (cases "length out < 2048")
    case True
    let ?rest = "replicate (2047 - length out) (None :: char option)"
    let ?k = "2047 - length out"
    from True have t: "take 2047 out = out" by simp
    have s2: "snprintf (map Some out @ Some NUL # ?rest) (int (length out)) (2048 - int (length out)) ?loc
       = Inr (map Some (out @ take ?k ?loc) @ Some NUL # drop (length (take ?k ?loc)) ?rest,
              int (length ?loc))"
      using snprintf_append [of out 2048 ?rest ?loc] True by simp
    have "build_msg s file line fmt args
       = Inr (map Some (out @ take ?k ?loc) @ Some NUL # drop (length (take ?k ?loc)) ?rest)"
      unfolding build_msg_def using True by (simp add: s1 t format_location s2)
    moreover have "take 2047 (out @ ?loc) = out @ take ?k ?loc"
      using True by simp
    ultimately show ?thesis
      using read_str_c_str [of "out @ take ?k ?loc"]
      by (simp add: report_text_def error_message_def)
  next
    case False
    have "build_msg s file line fmt args
       = Inr (map Some (take 2047 out) @ Some NUL # replicate (2047 - length (take 2047 out)) None)"
      unfolding build_msg_def using False by (simp add: s1 del: length_take)
    moreover have "report_text file line out = c_str (take 2047 out)"
      using False by (simp add: report_text_def error_message_def)
    ultimately show ?thesis
      by (simp add: read_str_c_str)
  qed
qed


lemma format_error_line:
  "NUL \<notin> set m \<Longrightarrow> format ''$ Error: %s\<newline>'' [ArgStr m] = Some (''$ Error: '' @ m @ ''\<newline>'')"
  by (simp add: format_def c_str_def c_str_id [unfolded c_str_def])

lemma defaultErrorHandlerFunction_prints:
  "NUL \<notin> set m \<Longrightarrow> defaultErrorHandlerFunction m data s
     = (NoReturn, emit [EvPrintf (''$ Error: '' @ m @ ''\<newline>''), EvExit (- 1)] s)"
  by (simp add: defaultErrorHandlerFunction_def format_error_line)

lemma call_error_handler_events:
  "NUL \<notin> set m \<Longrightarrow> call_error_handler h m d s = (NoReturn, emit (error_events (h, d) m) s)"
  by (cases h) (simp_all add: defaultErrorHandlerFunction_prints)

lemma format_arg_error_line:
  "NUL \<notin> set m \<Longrightarrow> format ''$ Invalid argument %d: %s\<newline>'' [ArgInt k, ArgStr m]
     = Some (''$ Invalid argument '' @ decimal (c_int k) @ '': '' @ m @ ''\<newline>'')"
  by (simp add: format_def c_str_def c_str_id [unfolded c_str_def])

lemma call_arg_error_handler_events:
  "NUL \<notin> set m \<Longrightarrow> call_arg_error_handler h k (Some m) d s
     = (NoReturn, emit (arg_error_events (h, d) k m) s)"
  by (cases h) (simp_all add: defaultArgErrorHandlerFunction_def format_arg_error_line)

lemma THError_emits:
  assumes "formatted s fmt args = Formatted out"
  shows "THError t file line fmt args s
     = (NoReturn, emit (error_events (active_error_handler s t) (report_text file line out)) s)"
proof -
  obtain msg where "build_msg s file line fmt args = Inr msg"
    and "read_str msg = Some (report_text file line out)"
    using build_msg_read [OF assms] by blast
  then show ?thesis
    by (simp add: THError_def active_error_handler_def call_error_handler_events
          report_text_no_NUL split: option.splits)
qed


lemma THArgCheck_emits:
  assumes "formatted s fmt args = Formatted out"
  shows "THArgCheck t file line 0 argNumber fmt args s
     = (NoReturn, emit (arg_error_events (active_arg_error_handler s t) argNumber
          (report_text file line out)) s)"
proof -
  obtain msg where "build_msg s file line fmt args = Inr msg"
    and "read_str msg = Some (report_text file line out)"
    using build_msg_read [OF assms] by blast
  then show ?thesis
    by (simp add: THArgCheck_def active_arg_error_handler_def call_arg_error_handler_events
          report_text_no_NUL split: option.splits)
qed


lemma error_message_cases:
  "error_message file line out =
     (if length out < 2048 then out @ take (2047 - length out) (location file line)
      else take 2047 out)"
  by (simp add: error_message_def)

lemma error_message_length: "length (error_message file line out) < 2048"
  by (simp add: error_message_def)

lemma error_message_whole:
  "error_message file line out = out @ location file line
     \<longleftrightarrow> length out + length (location file line) \<le> 2047"
proof
  assume "error_message file line out = out @ location file line"
  then have "length (out @ location file line) < 2048"
    using error_message_length [of "file" line out] by simp
  then show "length out + length (location file line) \<le> 2047" by simp
next
  assume "length out + length (location file line) \<le> 2047"
  then show "error_message file line out = out @ location file line"
    by (simp add: error_message_def)
qed

lemma THError_emits_plain:
  assumes "format fmt args = Some out" and "length out \<le> 2147483647"
    and "- 2147483648 \<le> line" and "line < 2147483648"
  shows "THError t file line fmt args s
     = (NoReturn, emit (error_events (active_error_handler s t) (error_message file line out)) s)"
  using THError_emits [OF formatted_subset [OF assms(1,2)], of t "file" line]
    report_text_plain [OF format_no_NUL [OF assms(1)], of "file" line] c_int_id [OF assms(3,4)]
  by simp

lemma location_example: "location ''a.c'' 7 = '' at a.c:7''"
  by (simp add: location_def c_str_def decimal_def digits.simps digit_char_def)

lemma formatted_percent_s:
  assumes "NUL \<notin> set x" and "length x \<le> 2147483647"
  shows "formatted s ''%s'' [ArgStr x] = Formatted x"
proof -
  have "format ''%s'' [ArgStr x] = Some x"
    using c_str_id [OF assms(1)] by (simp add: format_def c_str_def [of "''%s''"])
  then show ?thesis using assms(2) by (rule formatted_subset)
qed

lemma long_text_facts:
  "NUL \<notin> set long_text" "length long_text = 2040"
  "error_message ''a.c'' 7 long_text = long_text @ '' at a.c''"
  by (simp_all add: long_text_def error_message_def location_example)

section \<open>Error reporting\<close>

text \<open>
  C3 as stated fails: a text that leaves room in the buffer does not get the suffix
  " at <file>:<line>" but what the room takes of it. The text of 2040 characters, reported
  at a.c, line 7, comes out with " at a.c" behind it, not with " at a.c:7".
\<close>

theorem THError_suffix_cut_counterexample:
  "length long_text < 2048
   \<and> formatted (initial_state [] []) ''%s'' [ArgStr long_text] = Formatted long_text
   \<and> (THError 0 ''a.c'' 7 ''%s'' [ArgStr long_text] (initial_state [] [])
        :: unit outcome \<times> th_state)
     = (NoReturn,
        emit [EvPrintf (''$ Error: '' @ long_text @ '' at a.c'' @ ''\<newline>''), EvExit (- 1)]
          (initial_state [] []))
   \<and> long_text @ '' at a.c'' \<noteq> long_text @ location ''a.c'' 7"
proof -
  let ?s = "initial_state [] []"
  have f: "formatted ?s ''%s'' [ArgStr long_text] = Formatted long_text"
    by (rule formatted_percent_s) (simp_all add: long_text_facts)
  have a: "active_error_handler ?s 0 = (DefaultErrorHandlerFunction, 0)"
    by (simp add: active_error_handler_def initial_state_def)
  have r: "report_text ''a.c'' 7 long_text = long_text @ '' at a.c''"
    by (simp add: report_text_plain long_text_facts c_int_def)
  have e: "(THError 0 ''a.c'' 7 ''%s'' [ArgStr long_text] ?s :: unit outcome \<times> th_state)
     = (NoReturn,
        emit [EvPrintf (''$ Error: '' @ long_text @ '' at a.c'' @ ''\<newline>''), EvExit (- 1)] ?s)"
    by (simp add: THError_emits [OF f] a r)
  have n: "long_text @ '' at a.c'' \<noteq> long_text @ location ''a.c'' 7"
    by (simp add: location_example)
  show ?thesis
    using f e n by (simp add: long_text_facts)
qed

text \<open>
  C3, amended: for every file, line, format string and arguments that \<^verbatim>\<open>vsnprintf\<close> formats
  (its result is not negative), \<^verbatim>\<open>_THError\<close> builds one message in a buffer of capacity
  2048: the formatted text followed by the suffix " at <file>:<line>", the whole cut to 2047
  characters (and read as a C string). So the suffix is appended whole exactly when text
  and suffix together have at most 2047 characters, in part when the text is shorter than
  2047 characters but leaves less room, and not at all otherwise. Under the built-in default
  handler it prints the line "$ Error: <message>" and ends the process with status -1, which
  is not zero. The format "tensor shape mismatch: %d vs %d" with 3 and 5 at core.cpp, line
  42, prints "$ Error: tensor shape mismatch: 3 vs 5 at core.cpp:42".
\<close>

theorem THError_message_default_handler:
  assumes "formatted s fmt args = Formatted out"
    and "active_error_handler s t = (DefaultErrorHandlerFunction, d)"
  shows "\<exists>m. THError t file line fmt args s
             = (NoReturn, emit [EvPrintf (''$ Error: '' @ m @ ''\<newline>''), EvExit (- 1)] s)
          \<and> length m < 2048
          \<and> m = c_str (take 2047 (out @ location file (c_int line)))
          \<and> (NUL \<notin> set out \<longrightarrow>
                m = (if length out < 2047
                     then out @ take (2047 - length out) (location file (c_int line))
                     else take 2047 out)
              \<and> (m = out @ location file (c_int line)
                   \<longleftrightarrow> length out + length (location file (c_int line)) \<le> 2047))
          \<and> THError t ''core.cpp'' 42 ''tensor shape mismatch: %d vs %d'' [ArgInt 3, ArgInt 5]
               (initial_state rs as)
             = (NoReturn,
                emit [EvPrintf ''$ Error: tensor shape mismatch: 3 vs 5 at core.cpp:42\<newline>'',
                      EvExit (- 1)] (initial_state rs as))"
proof -
  have f: "format ''tensor shape mismatch: %d vs %d'' [ArgInt 3, ArgInt 5]
      = Some ''tensor shape mismatch: 3 vs 5''"
    by (simp add: format_def c_str_def decimal_def digits.simps digit_char_def c_int_def)
  have l: "location ''core.cpp'' 42 = '' at core.cpp:42''"
    by (simp add: location_def c_str_def decimal_def digits.simps digit_char_def)
  have m: "error_message ''core.cpp'' 42 ''tensor shape mismatch: 3 vs 5''
     = ''tensor shape mismatch: 3 vs 5 at core.cpp:42''"
    by (simp add: error_message_def l)
  have example: "THError t ''core.cpp'' 42 ''tensor shape mismatch: %d vs %d'' [ArgInt 3, ArgInt 5]
               (initial_state rs as)
             = (NoReturn,
                emit [EvPrintf ''$ Error: tensor shape mismatch: 3 vs 5 at core.cpp:42\<newline>'',
                      EvExit (- 1)] (initial_state rs as))"
    by (simp add: THError_emits_plain [OF f] m active_error_handler_def initial_state_def)
  let ?m = "report_text file line out"
  have general: "THError t file line fmt args s
      = (NoReturn, emit [EvPrintf (''$ Error: '' @ ?m @ ''\<newline>''), EvExit (- 1)] s)"
    by (simp add: THError_emits [OF assms(1)] assms(2))
  have shape: "?m = c_str (take 2047 (out @ location file (c_int line)))"
    by (simp add: report_text_def error_message_def)
  have plain: "NUL \<notin> set out \<longrightarrow>
                ?m = (if length out < 2047
                     then out @ take (2047 - length out) (location file (c_int line))
                     else take 2047 out)
              \<and> (?m = out @ location file (c_int line)
                   \<longleftrightarrow> length out + length (location file (c_int line)) \<le> 2047)"
    using error_message_whole [of "file" "c_int line" out]
    by (auto simp: report_text_plain error_message_def)
  show ?thesis
    using general example shape plain report_text_length by blast
qed

theorem THError_message_default_handler_witness:
  "formatted (initial_state [] []) ''%s failed'' [ArgStr ''copy''] = Formatted ''copy failed''
   \<and> active_error_handler (initial_state [] []) 0 = (DefaultErrorHandlerFunction, 0)
   \<and> (THError 0 ''a.c'' 7 ''%s failed'' [ArgStr ''copy''] (initial_state [] [])
        :: unit outcome \<times> th_state)
     = (NoReturn, emit [EvPrintf ''$ Error: copy failed at a.c:7\<newline>'', EvExit (- 1)]
         (initial_state [] []))
   \<and> formatted with_libc ''%ld items'' [ArgInt 42] = Formatted ''42 items''
   \<and> active_error_handler with_libc 0 = (DefaultErrorHandlerFunction, 0)
   \<and> (THError 0 ''a.c'' 7 ''%ld items'' [ArgInt 42] with_libc :: unit outcome \<times> th_state)
     = (NoReturn, emit [EvPrintf ''$ Error: 42 items at a.c:7\<newline>'', EvExit (- 1)] with_libc)"
proof -
  have f: "formatted (initial_state [] []) ''%s failed'' [ArgStr ''copy''] = Formatted ''copy failed''"
    by (simp add: formatted_def format_def c_str_def)
  have a: "active_error_handler (initial_state [] []) 0 = (DefaultErrorHandlerFunction, 0)"
    by (simp add: active_error_handler_def initial_state_def)
  have f': "formatted with_libc ''%ld items'' [ArgInt 42] = Formatted ''42 items''"
    by (simp add: formatted_def format_def c_str_def with_libc_def)
  have a': "active_error_handler with_libc 0 = (DefaultErrorHandlerFunction, 0)"
    by (simp add: active_error_handler_def initial_state_def with_libc_def)
  have c: "c_int 7 = 7" by (simp add: c_int_def)
  note w = THError_message_default_handler [OF f a, of "''a.c''" 7, where ?'a = unit,
      unfolded c location_example]
  note w' = THError_message_default_handler [OF f' a', of "''a.c''" 7, where ?'a = unit,
      unfolded c location_example]
  have n: "NUL \<notin> set ''copy failed''" "NUL \<notin> set ''42 items''" by simp_all
  from w n(1) obtain m where "(THError 0 ''a.c'' 7 ''%s failed'' [ArgStr ''copy''] (initial_state [] [])
        :: unit outcome \<times> th_state)
      = (NoReturn, emit [EvPrintf (''$ Error: '' @ m @ ''\<newline>''), EvExit (- 1)] (initial_state [] []))"
    and "m = (if length ''copy failed'' < 2047
              then ''copy failed'' @ take (2047 - length ''copy failed'') '' at a.c:7''
              else take 2047 ''copy failed'')"
    by blast
  then have e: "(THError 0 ''a.c'' 7 ''%s failed'' [ArgStr ''copy''] (initial_state [] [])
        :: unit outcome \<times> th_state)
     = (NoReturn, emit [EvPrintf ''$ Error: copy failed at a.c:7\<newline>'', EvExit (- 1)]
         (initial_state [] []))"
    by simp
  from w' n(2) obtain m' where "(THError 0 ''a.c'' 7 ''%ld items'' [ArgInt 42] with_libc
        :: unit outcome \<times> th_state)
      = (NoReturn, emit [EvPrintf (''$ Error: '' @ m' @ ''\<newline>''), EvExit (- 1)] with_libc)"
    and "m' = (if length ''42 items'' < 2047
              then ''42 items'' @ take (2047 - length ''42 items'') '' at a.c:7''
              else take 2047 ''42 items'')"
    by blast
  then have e': "(THError 0 ''a.c'' 7 ''%ld items'' [ArgInt 42] with_libc :: unit outcome \<times> th_state)
     = (NoReturn, emit [EvPrintf ''$ Error: 42 items at a.c:7\<newline>'', EvExit (- 1)] with_libc)"
    by simp
  show ?thesis
    using f a e f' a' e' by blast
qed


lemma two_threads_facts:
  "formatted two_threads ''bad'' [] = Formatted ''bad''"
  "formatted two_threads ''%ls'' [ArgOther 0] = FormatFails 0"
  "formatted (initial_state [] []) ''bad'' [] = Formatted ''bad''"
  "report_text ''a.c'' 7 ''bad'' = ''bad at a.c:7''"
  "active_error_handler two_threads 1 = (HostErrorHandler 7, 99)"
  "active_error_handler two_threads 2 = (DefaultErrorHandlerFunction, 0)"
  "active_arg_error_handler two_threads 1 = (HostArgErrorHandler 5, 44)"
  "active_arg_error_handler (initial_state [] []) 2 = (DefaultArgErrorHandlerFunction, 0)"
  by (simp_all add: formatted_def format_def c_str_def two_threads_def initial_state_def
        THSetErrorHandler_def THSetDefaultArgErrorHandler_def
        active_error_handler_def active_arg_error_handler_def
        report_text_def error_message_def location_example c_int_def)


section \<open>Argument checks and the allocator\<close>

text \<open>
  C4 as stated fails in its suffix rule, as C3 does: the failed check of argument 3 with the
  text of 2040 characters at a.c, line 7, hands on the text with " at a.c" behind it, not
  with " at a.c:7".
\<close>

theorem THArgCheck_suffix_cut_counterexample:
  "length long_text < 2048
   \<and> formatted (initial_state [] []) ''%s'' [ArgStr long_text] = Formatted long_text
   \<and> THArgCheck 0 ''a.c'' 7 0 3 ''%s'' [ArgStr long_text] (initial_state [] [])
     = (NoReturn,
        emit [EvPrintf (''$ Invalid argument 3: '' @ long_text @ '' at a.c'' @ ''\<newline>''),
              EvExit (- 1)] (initial_state [] []))
   \<and> long_text @ '' at a.c'' \<noteq> long_text @ location ''a.c'' 7"
proof -
  let ?s = "initial_state [] []"
  have f: "formatted ?s ''%s'' [ArgStr long_text] = Formatted long_text"
    by (rule formatted_percent_s) (simp_all add: long_text_facts)
  have r: "report_text ''a.c'' 7 long_text = long_text @ '' at a.c''"
    by (simp add: report_text_plain long_text_facts c_int_def)
  have d3: "decimal (c_int 3) = ''3''"
    by (simp add: decimal_def digits.simps digit_char_def c_int_def)
  have a: "active_arg_error_handler ?s 0 = (DefaultArgErrorHandlerFunction, 0)"
    by (simp add: active_arg_error_handler_def initial_state_def)
  have e: "THArgCheck 0 ''a.c'' 7 0 3 ''%s'' [ArgStr long_text] ?s
     = (NoReturn,
        emit [EvPrintf (''$ Invalid argument 3: '' @ long_text @ '' at a.c'' @ ''\<newline>''),
              EvExit (- 1)] ?s)"
    by (simp add: THArgCheck_emits [OF f] a r d3)
  have n: "long_text @ '' at a.c'' \<noteq> long_text @ location ''a.c'' 7"
    by (simp add: location_example)
  show ?thesis
    using f e n by (simp add: long_text_facts)
qed

text \<open>
  C4, amended: for every argument index, location, format string and arguments,
  \<^verbatim>\<open>_THArgCheck\<close> with a true (non-zero) condition returns and leaves the whole state as it
  was: no handler is called and nothing is printed. With a false condition and a format
  and arguments that \<^verbatim>\<open>vsnprintf\<close> formats, it builds the message in a buffer of capacity
  2048 as error reporting does (the text followed by the location suffix, the whole cut to
  2047 characters and read as a C string: the suffix whole exactly when both fit, in part
  when the text leaves less room, not at all from 2047 characters of text on) and passes it
  with the argument index to the argument-error handler in force, and control does not come
  back to the caller.
\<close>

theorem THArgCheck_contract:
  "(condition \<noteq> 0 \<longrightarrow>
      THArgCheck t file line condition argNumber fmt args s = (Returns (), s))
   \<and> (condition = 0 \<and> formatted s fmt args = Formatted out \<longrightarrow>
        THArgCheck t file line condition argNumber fmt args s
          = (NoReturn, emit (arg_error_events (active_arg_error_handler s t) argNumber
               (report_text file line out)) s)
        \<and> (\<forall>h d. active_arg_error_handler s t = (HostArgErrorHandler h, d) \<longrightarrow>
               trace (snd (THArgCheck t file line condition argNumber fmt args s))
                 = trace s @ [EvArgErrorHandler h argNumber (Some (report_text file line out)) d])
        \<and> length (report_text file line out) < 2048
        \<and> report_text file line out = c_str (take 2047 (out @ location file (c_int line)))
        \<and> (NUL \<notin> set out \<longrightarrow>
              report_text file line out
                = (if length out < 2047
                   then out @ take (2047 - length out) (location file (c_int line))
                   else take 2047 out)
            \<and> (report_text file line out = out @ location file (c_int line)
                 \<longleftrightarrow> length out + length (location file (c_int line)) \<le> 2047)))"
proof -
  let ?m = "report_text file line out"
  have holds: "condition \<noteq> 0 \<longrightarrow>
      THArgCheck t file line condition argNumber fmt args s = (Returns (), s)"
    by (simp add: THArgCheck_def)
  have fails: "condition = 0 \<and> formatted s fmt args = Formatted out \<longrightarrow>
        THArgCheck t file line condition argNumber fmt args s
          = (NoReturn, emit (arg_error_events (active_arg_error_handler s t) argNumber ?m) s)"
    using THArgCheck_emits by blast
  have host: "condition = 0 \<and> formatted s fmt args = Formatted out \<longrightarrow>
       (\<forall>h d. active_arg_error_handler s t = (HostArgErrorHandler h, d) \<longrightarrow>
               trace (snd (THArgCheck t file line condition argNumber fmt args s))
                 = trace s @ [EvArgErrorHandler h argNumber (Some ?m) d])"
    by (simp add: THArgCheck_emits emit_def)
  have shape: "?m = c_str (take 2047 (out @ location file (c_int line)))"
    by (simp add: report_text_def error_message_def)
  have plain: "NUL \<notin> set out \<longrightarrow>
                ?m = (if length out < 2047
                     then out @ take (2047 - length out) (location file (c_int line))
                     else take 2047 out)
              \<and> (?m = out @ location file (c_int line)
                   \<longleftrightarrow> length out + length (location file (c_int line)) \<le> 2047)"
    using error_message_whole [of "file" "c_int line" out]
    by (auto simp: report_text_plain error_message_def)
  show ?thesis
    using holds fails host shape plain report_text_length by blast
qed

theorem THArgCheck_contract_witness:
  "(1::int) \<noteq> 0
   \<and> THArgCheck 1 ''a.c'' 7 1 3 ''bad'' [] two_threads = (Returns (), two_threads)
   \<and> formatted (initial_state [] []) ''bad'' [] = Formatted ''bad''
   \<and> THArgCheck 2 ''a.c'' 7 0 3 ''bad'' [] (initial_state [] [])
       = (NoReturn, emit [EvPrintf ''$ Invalid argument 3: bad at a.c:7\<newline>'', EvExit (- 1)]
            (initial_state [] []))
   \<and> formatted two_threads ''bad'' [] = Formatted ''bad''
   \<and> active_arg_error_handler two_threads 1 = (HostArgErrorHandler 5, 44)
   \<and> trace (snd (THArgCheck 1 ''a.c'' 7 0 3 ''bad'' [] two_threads))
       = trace two_threads @ [EvArgErrorHandler 5 3 (Some ''bad at a.c:7'') 44]"
proof -
  note f = two_threads_facts
  have d3: "decimal (c_int 3) = ''3''"
    by (simp add: decimal_def digits.simps digit_char_def c_int_def)
  have ne: "(1::int) \<noteq> 0" by simp
  note c1 = THArgCheck_contract [of 1 1 "''a.c''" 7 3 "''bad''" "[]" two_threads "''bad''"]
  note c2 = THArgCheck_contract [of 0 2 "''a.c''" 7 3 "''bad''" "[]" "initial_state [] []" "''bad''",
      unfolded f(4) f(8) arg_error_events.simps d3]
  note c3 = THArgCheck_contract [of 0 1 "''a.c''" 7 3 "''bad''" "[]" two_threads "''bad''",
      unfolded f(4)]
  have e1: "THArgCheck 1 ''a.c'' 7 1 3 ''bad'' [] two_threads = (Returns (), two_threads)"
    using c1 ne by blast
  have "THArgCheck 2 ''a.c'' 7 0 3 ''bad'' [] (initial_state [] [])
       = (NoReturn, emit [EvPrintf (''$ Invalid argument '' @ ''3'' @ '': '' @ ''bad at a.c:7'' @ ''\<newline>''),
            EvExit (- 1)] (initial_state [] []))"
    using c2 f(3) by blast
  then have e2: "THArgCheck 2 ''a.c'' 7 0 3 ''bad'' [] (initial_state [] [])
       = (NoReturn, emit [EvPrintf ''$ Invalid argument 3: bad at a.c:7\<newline>'', EvExit (- 1)]
            (initial_state [] []))"
    by simp
  have e3: "trace (snd (THArgCheck 1 ''a.c'' 7 0 3 ''bad'' [] two_threads))
       = trace two_threads @ [EvArgErrorHandler 5 3 (Some ''bad at a.c:7'') 44]"
    using c3 f(1) f(7) by blast
  show ?thesis
    using ne e1 f(3) e2 f(1) f(7) e3 by blast
qed

text \<open>
  C6: for every non-null pointer, \<^verbatim>\<open>THRealloc\<close> with size zero frees the pointer and
  returns null; it reports no error (the only thing it does is the call of \<^verbatim>\<open>free\<close>).
\<close>

theorem THRealloc_zero_size_frees:
  assumes "p \<noteq> 0"
  shows "THRealloc file t p 0 s = (Returns 0, emit [EvFree p] s)"
  using assms by (simp add: THRealloc_def THFree_def free_def)

theorem THRealloc_zero_size_frees_witness:
  "(5::nat) \<noteq> 0
   \<and> THRealloc ''THGeneral.cpp'' 1 5 0 two_threads = (Returns 0, emit [EvFree 5] two_threads)"
  using THRealloc_zero_size_frees [of 5 "''THGeneral.cpp''" 1 two_threads] by simp

lemma format_invalid_size: "format invalid_size_text [] = Some invalid_size_text"
  by (simp add: format_def c_str_def invalid_size_text_def)

lemma THError_invalid_size:
  "THError t file 165 invalid_size_text [] s
     = (NoReturn, emit (error_events (active_error_handler s t)
          (error_message file 165 invalid_size_text)) s)"
  by (rule THError_emits_plain [OF format_invalid_size]) (simp_all add: invalid_size_text_def)

text \<open>
  C7: for every negative size, \<^verbatim>\<open>THAlloc\<close> reports a fatal error through \<^verbatim>\<open>_THError\<close>
  (line 165, "invalid memory size"), does not return, and does not call the system
  allocator: no \<^verbatim>\<open>alloc_cpu\<close> call appears among the new events and no answer of the
  allocator is consumed.
\<close>

theorem THAlloc_negative_size:
  assumes "sz < 0"
  shows "THAlloc file t sz s = THError t file 165 invalid_size_text [] s
     \<and> THAlloc file t sz s
         = (NoReturn, emit (error_events (active_error_handler s t)
              (error_message file 165 invalid_size_text)) s)
     \<and> (\<forall>n. EvAllocCpu n \<notin> set (drop (length (trace s)) (trace (snd (THAlloc file t sz s)))))
     \<and> alloc_script (snd (THAlloc file t sz s)) = alloc_script s"
proof -
  let ?es = "error_events (active_error_handler s t) (error_message file 165 invalid_size_text)"
  have e: "(THError t file 165 invalid_size_text [] s :: ptr outcome \<times> th_state)
      = (NoReturn, emit ?es s)"
    by (rule THError_invalid_size)
  have e': "(THError t file 165 invalid_size_text [] s :: unit outcome \<times> th_state)
      = (NoReturn, emit ?es s)"
    by (rule THError_invalid_size)
  have a: "THAlloc file t sz s = (NoReturn, emit ?es s)"
    using assms e' by (simp add: THAlloc_def invalid_size_text_def)
  have n: "\<forall>n. EvAllocCpu n \<notin> set ?es"
  proof (cases "active_error_handler s t")
    case (Pair h d)
    then show ?thesis by (cases h) simp_all
  qed
  show ?thesis
    using a e n by (simp add: emit_def)
qed

theorem THAlloc_negative_size_witness:
  "(- 8 :: int) < 0
   \<and> THAlloc ''th.c'' 2 (- 8) (initial_state [] [Block 1])
       = (NoReturn, emit [EvPrintf ''$ Error: $ Torch: invalid memory size -- maybe an overflow? at th.c:165\<newline>'',
            EvExit (- 1)] (initial_state [] [Block 1]))
   \<and> alloc_script (snd (THAlloc ''th.c'' 2 (- 8) (initial_state [] [Block 1]))) = [Block 1]"
proof -
  have neg: "(- 8 :: int) < 0" by simp
  have m: "error_message ''th.c'' 165 invalid_size_text
     = ''$ Torch: invalid memory size -- maybe an overflow? at th.c:165''"
    by (simp add: error_message_def location_def c_str_def decimal_def digits.simps digit_char_def
          invalid_size_text_def)
  have a: "active_error_handler (initial_state [] [Block 1]) 2 = (DefaultErrorHandlerFunction, 0)"
    by (simp add: active_error_handler_def initial_state_def)
  note w = THAlloc_negative_size [OF neg, of "''th.c''" 2 "initial_state [] [Block 1]",
      unfolded m a error_events.simps]
  have e: "THAlloc ''th.c'' 2 (- 8) (initial_state [] [Block 1])
       = (NoReturn, emit [EvPrintf (''$ Error: '' @
            ''$ Torch: invalid memory size -- maybe an overflow? at th.c:165'' @ ''\<newline>''),
            EvExit (- 1)] (initial_state [] [Block 1]))"
    using w by blast
  have s: "alloc_script (snd (THAlloc ''th.c'' 2 (- 8) (initial_state [] [Block 1])))
      = alloc_script (initial_state [] [Block 1])"
    using w by blast
  show ?thesis
    using neg e s by (simp add: initial_state_def)
qed

text \<open>
  C10: \<^verbatim>\<open>THRealloc\<close> with a null pointer is \<^verbatim>\<open>THAlloc\<close> of the size, whatever the size;
  with a null pointer and size zero it is the call \<^verbatim>\<open>alloc_cpu(0)\<close> and returns what
  that returns, and nothing is freed. The null-pointer test comes first: the
  free-and-return-null path is taken only for a non-null pointer.
\<close>

theorem THRealloc_null_pointer_allocates:
  "THRealloc file t 0 sz s = THAlloc file t sz s
   \<and> THRealloc file t 0 0 s = alloc_cpu 0 s
   \<and> trace (snd (THRealloc file t 0 0 s)) = trace s @ [EvAllocCpu 0]
   \<and> (p \<noteq> 0 \<longrightarrow> THRealloc file t p 0 s = (Returns 0, emit [EvFree p] s))"
  by (simp add: THRealloc_def THAlloc_def alloc_cpu_def emit_def THFree_def free_def
        split: list.splits alloc_answer.splits)

theorem THRealloc_null_pointer_allocates_witness:
  "THRealloc ''th.c'' 1 0 0 (initial_state [] [Block 0])
     = (Returns 0, emit [EvAllocCpu 0] (initial_state [] []))
   \<and> THRealloc ''th.c'' 1 0 0 (initial_state [] [Block 6])
     = (Returns 6, emit [EvAllocCpu 0] (initial_state [] []))
   \<and> (3::nat) \<noteq> 0
   \<and> THRealloc ''th.c'' 1 3 0 (initial_state [] [Block 6])
     = (Returns 0, emit [EvFree 3] (initial_state [] [Block 6]))"
proof -
  note w0 = THRealloc_null_pointer_allocates [of "''th.c''" 1 0 "initial_state [] [Block 0]" 3]
  note w6 = THRealloc_null_pointer_allocates [of "''th.c''" 1 0 "initial_state [] [Block 6]" 3]
  have ne: "(3::nat) \<noteq> 0" by simp
  have "THRealloc ''th.c'' 1 0 0 (initial_state [] [Block 0]) = alloc_cpu 0 (initial_state [] [Block 0])"
    using w0 by blast
  then have e0: "THRealloc ''th.c'' 1 0 0 (initial_state [] [Block 0])
     = (Returns 0, emit [EvAllocCpu 0] (initial_state [] []))"
    by (simp add: alloc_cpu_def initial_state_def)
  have "THRealloc ''th.c'' 1 0 0 (initial_state [] [Block 6]) = alloc_cpu 0 (initial_state [] [Block 6])"
    using w6 by blast
  then have e6: "THRealloc ''th.c'' 1 0 0 (initial_state [] [Block 6])
     = (Returns 6, emit [EvAllocCpu 0] (initial_state [] []))"
    by (simp add: alloc_cpu_def initial_state_def)
  have e3: "THRealloc ''th.c'' 1 3 0 (initial_state [] [Block 6])
     = (Returns 0, emit [EvFree 3] (initial_state [] [Block 6]))"
    using w6 ne by blast
  show ?thesis using e0 e6 ne e3 by blast
qed

section \<open>Reallocation\<close>

lemma realloc_answer:
  "realloc p sz s = (next_answer (realloc_script s),
     emit [EvRealloc p sz (next_answer (realloc_script s))]
       (s\<lparr>realloc_script := tl (realloc_script s)\<rparr>))"
  by (cases "realloc_script s") (simp_all add: realloc_def next_answer_def emit_def)

lemma format_oom:
  "format ''$ Torch: not enough memory: you tried to reallocate %dGB. Buy new RAM!''
      [ArgInt (c_div sz 1073741824)] = Some (oom_text sz)"
  by (simp add: format_def c_str_def oom_text_def)

lemma THError_oom:
  "THError t file 192 ''$ Torch: not enough memory: you tried to reallocate %dGB. Buy new RAM!''
      [ArgInt (c_div sz 1073741824)] s
     = (NoReturn, emit (error_events (active_error_handler s t)
          (error_message file 192 (oom_text sz))) s)"
proof (rule THError_emits_plain [OF format_oom])
  show "length (oom_text sz) \<le> 2147483647"
    using length_decimal_c_int [of "c_div sz 1073741824"] by (simp add: oom_text_def)
qed simp_all

lemma error_events_no_heap_call:
  "filter is_gc_call (error_events hp m) = [] \<and> filter is_realloc_call (error_events hp m) = []"
proof (cases hp)
  case (Pair h d)
  then show ?thesis by (cases h) simp_all
qed

lemma THRealloc_unfold:
  assumes "p \<noteq> 0" and "0 < sz" and "next_answer (realloc_script s) = 0"
  shows "THRealloc file t p sz s =
     (case torchGCFunction s t of
        None \<Rightarrow>
          (NoReturn, s\<lparr>realloc_script := tl (realloc_script s),
             trace := trace s @ [EvRealloc p sz 0]
               @ error_events (active_error_handler s t) (error_message file 192 (oom_text sz))\<rparr>)
      | Some g \<Rightarrow>
          (let r = next_answer (tl (realloc_script s));
               tried = [EvRealloc p sz 0, EvGC g (torchGCData s t), EvRealloc p sz r];
               s' = s\<lparr>realloc_script := tl (tl (realloc_script s))\<rparr>
           in if r = 0 then
                (NoReturn, s'\<lparr>trace := trace s @ tried
                   @ error_events (active_error_handler s t) (error_message file 192 (oom_text sz))\<rparr>)
              else (Returns r, s'\<lparr>trace := trace s @ tried\<rparr>)))"
  using assms
  by (auto simp: THRealloc_def realloc_answer call_gc_def emit_def Let_def
        THError_oom active_error_handler_def split: option.splits)

text \<open>
  C1: for every non-null pointer and positive size, when the first \<^verbatim>\<open>realloc\<close> in
  \<^verbatim>\<open>THRealloc\<close> fails: with a GC hook registered on the thread, the hook is called exactly
  once, \<^verbatim>\<open>realloc\<close> is called exactly once more, the result of the retry is returned when
  it is not null, and the fatal error (line 192, "not enough memory") is reported only when
  the retry fails too; with no hook, there is no retry and the fatal error is reported at
  once. On this path \<^verbatim>\<open>THRealloc\<close> never returns null. The number in the report is what
  \<^verbatim>\<open>%d\<close> reads of the 64-bit quotient, its low 32 bits: a request of \<open>2^61\<close> bytes is
  reported as -2147483648GB.
\<close>

theorem THRealloc_failure_retry:
  assumes "p \<noteq> 0" and "0 < sz" and "next_answer (realloc_script s) = 0"
  shows "(torchGCFunction s t = None \<longrightarrow>
            fst (THRealloc file t p sz s) = NoReturn
          \<and> new_events s (snd (THRealloc file t p sz s))
              = [EvRealloc p sz 0]
                @ error_events (active_error_handler s t) (error_message file 192 (oom_text sz))
          \<and> filter is_gc_call (new_events s (snd (THRealloc file t p sz s))) = []
          \<and> filter is_realloc_call (new_events s (snd (THRealloc file t p sz s)))
              = [EvRealloc p sz 0])
       \<and> (\<forall>g. torchGCFunction s t = Some g \<longrightarrow>
            (let r = next_answer (tl (realloc_script s));
                 tried = [EvRealloc p sz 0, EvGC g (torchGCData s t), EvRealloc p sz r]
             in fst (THRealloc file t p sz s) = (if r = 0 then NoReturn else Returns r)
              \<and> new_events s (snd (THRealloc file t p sz s))
                  = (if r = 0 then
                       tried @ error_events (active_error_handler s t)
                                 (error_message file 192 (oom_text sz))
                     else tried)
              \<and> filter is_gc_call (new_events s (snd (THRealloc file t p sz s)))
                  = [EvGC g (torchGCData s t)]
              \<and> filter is_realloc_call (new_events s (snd (THRealloc file t p sz s)))
                  = [EvRealloc p sz 0, EvRealloc p sz r]))
       \<and> fst (THRealloc file t p sz s) \<noteq> Returns 0"
proof -
  note u = THRealloc_unfold [OF assms, of "file" t]
  note n = error_events_no_heap_call
  have none: "torchGCFunction s t = None \<longrightarrow>
            fst (THRealloc file t p sz s) = NoReturn
          \<and> new_events s (snd (THRealloc file t p sz s))
              = [EvRealloc p sz 0]
                @ error_events (active_error_handler s t) (error_message file 192 (oom_text sz))
          \<and> filter is_gc_call (new_events s (snd (THRealloc file t p sz s))) = []
          \<and> filter is_realloc_call (new_events s (snd (THRealloc file t p sz s)))
              = [EvRealloc p sz 0]"
    by (simp add: u new_events_def n)
  have some: "\<forall>g. torchGCFunction s t = Some g \<longrightarrow>
            (let r = next_answer (tl (realloc_script s));
                 tried = [EvRealloc p sz 0, EvGC g (torchGCData s t), EvRealloc p sz r]
             in fst (THRealloc file t p sz s) = (if r = 0 then NoReturn else Returns r)
              \<and> new_events s (snd (THRealloc file t p sz s))
                  = (if r = 0 then
                       tried @ error_events (active_error_handler s t)
                                 (error_message file 192 (oom_text sz))
                     else tried)
              \<and> filter is_gc_call (new_events s (snd (THRealloc file t p sz s)))
                  = [EvGC g (torchGCData s t)]
              \<and> filter is_realloc_call (new_events s (snd (THRealloc file t p sz s)))
                  = [EvRealloc p sz 0, EvRealloc p sz r])"
    by (simp add: u new_events_def n Let_def)
  have nonnull: "fst (THRealloc file t p sz s) \<noteq> Returns 0"
    by (cases "torchGCFunction s t") (simp_all add: u Let_def)
  show ?thesis
    using none some nonnull by blast
qed

theorem THRealloc_failure_retry_witness:
  "(3::nat) \<noteq> 0 \<and> (0::int) < 16
   \<and> next_answer (realloc_script with_gc) = 0
   \<and> torchGCFunction with_gc 1 = Some 4
   \<and> fst (THRealloc ''th.c'' 1 3 16 with_gc) = Returns 9
   \<and> new_events with_gc (snd (THRealloc ''th.c'' 1 3 16 with_gc))
       = [EvRealloc 3 16 0, EvGC 4 77, EvRealloc 3 16 9]
   \<and> torchGCFunction with_gc 2 = None
   \<and> fst (THRealloc ''th.c'' 2 3 16 with_gc) = NoReturn
   \<and> new_events with_gc (snd (THRealloc ''th.c'' 2 3 16 with_gc))
       = [EvRealloc 3 16 0,
          EvPrintf ''$ Error: $ Torch: not enough memory: you tried to reallocate 0GB. Buy new RAM! at th.c:192\<newline>'',
          EvExit (- 1)]
   \<and> (0::int) < 2305843009213693952
   \<and> new_events with_gc (snd (THRealloc ''th.c'' 2 3 2305843009213693952 with_gc))
       = [EvRealloc 3 2305843009213693952 0,
          EvPrintf ''$ Error: $ Torch: not enough memory: you tried to reallocate -2147483648GB. Buy new RAM! at th.c:192\<newline>'',
          EvExit (- 1)]"
proof -
  have h: "(3::nat) \<noteq> 0" "(0::int) < 16" "next_answer (realloc_script with_gc) = 0"
    by (simp_all add: with_gc_def THSetGCHandler_def initial_state_def next_answer_def)
  have g1: "torchGCFunction with_gc 1 = Some 4" and g2: "torchGCFunction with_gc 2 = None"
    and d1: "torchGCData with_gc 1 = 77"
    and r: "next_answer (tl (realloc_script with_gc)) = 9"
    and a: "active_error_handler with_gc 2 = (DefaultErrorHandlerFunction, 0)"
    by (simp_all add: with_gc_def THSetGCHandler_def initial_state_def next_answer_def
          active_error_handler_def)
  have m: "error_message ''th.c'' 192 (oom_text 16)
     = ''$ Torch: not enough memory: you tried to reallocate 0GB. Buy new RAM! at th.c:192''"
    by (simp add: error_message_def location_def c_str_def decimal_def digits.simps digit_char_def
          oom_text_def c_div_def c_int_def)
  have big: "(0::int) < 2305843009213693952" by simp
  have m': "error_message ''th.c'' 192 (oom_text 2305843009213693952)
     = ''$ Torch: not enough memory: you tried to reallocate -2147483648GB. Buy new RAM! at th.c:192''"
    by (simp add: error_message_def location_def c_str_def decimal_def digits.simps digit_char_def
          oom_text_def c_div_def c_int_def)
  note w3 = THRealloc_failure_retry [OF h(1) big h(3), of 2 "''th.c''",
      unfolded m' a error_events.simps]
  have e3: "new_events with_gc (snd (THRealloc ''th.c'' 2 3 2305843009213693952 with_gc))
       = [EvRealloc 3 2305843009213693952 0,
          EvPrintf ''$ Error: $ Torch: not enough memory: you tried to reallocate -2147483648GB. Buy new RAM! at th.c:192\<newline>'',
          EvExit (- 1)]"
    using w3 g2 by simp
  note w1 = THRealloc_failure_retry [OF h, of 1 "''th.c''", unfolded Let_def r d1]
  note w2 = THRealloc_failure_retry [OF h, of 2 "''th.c''", unfolded m a error_events.simps]
  have e1: "fst (THRealloc ''th.c'' 1 3 16 with_gc) = Returns 9
     \<and> new_events with_gc (snd (THRealloc ''th.c'' 1 3 16 with_gc))
       = [EvRealloc 3 16 0, EvGC 4 77, EvRealloc 3 16 9]"
    using w1 g1 by simp
  have e2: "fst (THRealloc ''th.c'' 2 3 16 with_gc) = NoReturn
     \<and> new_events with_gc (snd (THRealloc ''th.c'' 2 3 16 with_gc))
       = [EvRealloc 3 16 0,
          EvPrintf ''$ Error: $ Torch: not enough memory: you tried to reallocate 0GB. Buy new RAM! at th.c:192\<newline>'',
          EvExit (- 1)]"
    using w2 g2 by simp
  show ?thesis
    using h g1 g2 e1 e2 big e3 by blast
qed

section \<open>Registration of the default handler\<close>

text \<open>
  C8 as stated, with the data of the earlier registration kept when the handler is reset,
  fails: after the host has registered handler 1 with data 7, the call with a null
  handler and data 9 leaves the data 9, not 7.
\<close>

theorem THSetDefaultErrorHandler_data_counterexample:
  "defaultErrorHandlerData host_default = 7
   \<and> defaultErrorHandlerData (THSetDefaultErrorHandler None 9 host_default) = 9
   \<and> defaultErrorHandlerData (THSetDefaultErrorHandler None 9 host_default)
       \<noteq> defaultErrorHandlerData host_default"
  by (simp add: host_default_def THSetDefaultErrorHandler_def initial_state_def)

text \<open>
  C8, amended: for every earlier state, \<^verbatim>\<open>THSetDefaultErrorHandler\<close> with a null handler
  makes the built-in handler the process-wide default, and with a non-null handler
  installs that handler; in both cases the data registered with it becomes the data
  argument of this call (the data of the earlier registration is replaced), and nothing
  else of the state changes. A thread without an override then reports to that handler
  with that data.
\<close>

theorem THSetDefaultErrorHandler_installs:
  "THSetDefaultErrorHandler None data s
     = s\<lparr>defaultErrorHandler := DefaultErrorHandlerFunction, defaultErrorHandlerData := data\<rparr>
   \<and> THSetDefaultErrorHandler (Some h) data s
     = s\<lparr>defaultErrorHandler := h, defaultErrorHandlerData := data\<rparr>
   \<and> (threadErrorHandler s t = None \<longrightarrow>
        active_error_handler (THSetDefaultErrorHandler None data s) t
          = (DefaultErrorHandlerFunction, data)
        \<and> active_error_handler (THSetDefaultErrorHandler (Some h) data s) t = (h, data))"
  by (simp add: THSetDefaultErrorHandler_def active_error_handler_def)

theorem THSetDefaultErrorHandler_installs_witness:
  "threadErrorHandler host_default 3 = None
   \<and> active_error_handler host_default 3 = (HostErrorHandler 1, 7)
   \<and> active_error_handler (THSetDefaultErrorHandler None 9 host_default) 3
       = (DefaultErrorHandlerFunction, 9)
   \<and> active_error_handler (THSetDefaultErrorHandler (Some (HostErrorHandler 2)) 9 host_default) 3
       = (HostErrorHandler 2, 9)"
proof -
  have n: "threadErrorHandler host_default 3 = None"
    and a: "active_error_handler host_default 3 = (HostErrorHandler 1, 7)"
    by (simp_all add: host_default_def THSetDefaultErrorHandler_def initial_state_def
          active_error_handler_def)
  show ?thesis
    using THSetDefaultErrorHandler_installs [of 9 host_default "HostErrorHandler 2" 3] n a
    by blast
qed

section \<open>Assertion failure\<close>

lemma format_assertion:
  "format ''Assertion `%s' failed. %s'' [ArgStr exp, ArgStr explanation]
     = Some (assertion_text exp explanation)"
  by (simp add: format_def c_str_def assertion_text_def)

lemma assertion_text_no_NUL: "NUL \<notin> set (assertion_text exp explanation)"
  by (simp add: assertion_text_def c_str_no_NUL)

lemma length_assertion_text:
  "length (assertion_text exp explanation)
     = 21 + length (c_str exp) + length (c_str explanation)"
  by (simp add: assertion_text_def)

lemma vsnprintf_read:
  assumes "0 < cap"
  shows "\<exists>msg n. vsnprintf cap (Formatted out) = Inr (msg, n)
           \<and> read_str msg = Some (c_str (take (cap - 1) out))"
  using snprintf_uninit [OF assms, of out] by (simp add: vsnprintf_def read_str_c_str)

lemma THError_same_text:
  "formatted s fmt args = formatted s fmt args'
     \<Longrightarrow> THError t file line fmt args s = THError t file line fmt args' s"
  by (simp add: THError_def build_msg_def)

lemma THAssertionFailed_unfold:
  assumes "formatted s fmt args = Formatted out"
  shows "THAssertionFailed t file line exp fmt args s
     = THError t file line ''Assertion `%s' failed. %s'' [ArgStr exp, ArgStr (take 1023 out)] s"
proof -
  obtain msg n where "vsnprintf 1024 (Formatted out) = Inr (msg, n)"
    and "read_str msg = Some (c_str (take 1023 out))"
    using vsnprintf_read [of 1024 out] by auto
  then have "THAssertionFailed t file line exp fmt args s
     = THError t file line ''Assertion `%s' failed. %s''
         [ArgStr exp, ArgStr (c_str (take 1023 out))] s"
    using assms by (simp add: THAssertionFailed_def)
  also have "\<dots> = THError t file line ''Assertion `%s' failed. %s''
         [ArgStr exp, ArgStr (take 1023 out)] s"
    by (rule THError_same_text)
      (simp add: formatted_def format_assertion assertion_text_def c_str_idem)
  finally show ?thesis .
qed

lemma THError_assertion:
  assumes "21 + length (c_str exp) + length (c_str explanation) \<le> 2147483647"
  shows "THError t file line ''Assertion `%s' failed. %s'' [ArgStr exp, ArgStr explanation] s
     = (NoReturn, emit (error_events (active_error_handler s t)
          (report_text file line (assertion_text exp explanation))) s)"
  by (rule THError_emits [OF formatted_subset [OF format_assertion]])
    (simp add: length_assertion_text assms)

lemma formatted_long_explanation:
  "formatted s ''%s'' [ArgStr long_explanation] = Formatted long_explanation"
  by (rule formatted_percent_s) (simp_all add: long_explanation_def)

lemma format_long_explanation: "format ''%s'' [ArgStr long_explanation] = Some long_explanation"
proof -
  have "NUL \<notin> set long_explanation"
    by (simp add: long_explanation_def)
  then have "c_str long_explanation = long_explanation"
    by (rule c_str_id)
  then show ?thesis
    by (simp add: format_def c_str_def [of "''%s''"])
qed

text \<open>
  C9 as stated, with the whole formatted explanation in the message, fails: the
  explanation goes through \<^verbatim>\<open>char msg[1024]\<close> first, so an explanation of 1024 characters
  reaches \<^verbatim>\<open>_THError\<close> without its last character, and the report differs from the one
  \<^verbatim>\<open>_THError\<close> makes of the whole explanation.
\<close>

theorem THAssertionFailed_truncates_counterexample:
  "format ''%s'' [ArgStr long_explanation] = Some long_explanation
   \<and> length long_explanation = 1024
   \<and> (THAssertionFailed 0 ''a.c'' 7 ''x'' ''%s'' [ArgStr long_explanation] (initial_state [] [])
        :: unit outcome \<times> th_state)
     = (NoReturn,
        emit [EvPrintf (''$ Error: Assertion `x'' @ [CHR 0x27] @ '' failed. ''
                @ replicate 1023 CHR ''a'' @ '' at a.c:7\<newline>''),
              EvExit (- 1)] (initial_state [] []))
   \<and> (THAssertionFailed 0 ''a.c'' 7 ''x'' ''%s'' [ArgStr long_explanation] (initial_state [] [])
        :: unit outcome \<times> th_state)
     \<noteq> THError 0 ''a.c'' 7 ''Assertion `%s' failed. %s'' [ArgStr ''x'', ArgStr long_explanation]
         (initial_state [] [])"
proof -
  let ?s = "initial_state [] []"
  have a: "active_error_handler ?s 0 = (DefaultErrorHandlerFunction, 0)"
    by (simp add: active_error_handler_def initial_state_def)
  have t: "take 1023 long_explanation = replicate 1023 CHR ''a''"
    by (simp add: long_explanation_def)
  have nn: "NUL \<notin> set long_explanation" "NUL \<notin> set (replicate 1023 CHR ''a'')"
    by (simp_all add: long_explanation_def)
  have cx: "c_str ''x'' = ''x''" by (simp add: c_str_def)
  have cut: "assertion_text ''x'' (replicate 1023 CHR ''a'')
      = ''Assertion `x'' @ [CHR 0x27] @ '' failed. '' @ replicate 1023 CHR ''a''"
    by (simp add: assertion_text_def c_str_id [OF nn(2)] cx)
  have whole: "assertion_text ''x'' long_explanation
      = ''Assertion `x'' @ [CHR 0x27] @ '' failed. '' @ long_explanation"
    by (simp add: assertion_text_def c_str_id [OF nn(1)] cx)
  have c7: "c_int 7 = 7" by (simp add: c_int_def)
  have m1: "report_text ''a.c'' 7 (assertion_text ''x'' (replicate 1023 CHR ''a''))
      = ''Assertion `x'' @ [CHR 0x27] @ '' failed. '' @ replicate 1023 CHR ''a'' @ '' at a.c:7''"
    unfolding report_text_plain [OF assertion_text_no_NUL] c7
    by (simp add: error_message_def location_example cut)
  have m2: "report_text ''a.c'' 7 (assertion_text ''x'' long_explanation)
      = ''Assertion `x'' @ [CHR 0x27] @ '' failed. '' @ long_explanation @ '' at a.c:7''"
  proof -
    have "length (assertion_text ''x'' long_explanation) = 1046"
      unfolding whole by (simp add: long_explanation_def)
    then have "error_message ''a.c'' 7 (assertion_text ''x'' long_explanation)
        = assertion_text ''x'' long_explanation @ '' at a.c:7''"
      by (simp add: error_message_def location_example)
    then show ?thesis
      unfolding report_text_plain [OF assertion_text_no_NUL] c7 by (simp add: whole)
  qed
  have l1: "21 + length (c_str ''x'') + length (c_str (replicate 1023 CHR ''a'')) \<le> 2147483647"
    unfolding cx c_str_id [OF nn(2)] by simp
  have l2: "21 + length (c_str ''x'') + length (c_str long_explanation) \<le> 2147483647"
    unfolding cx c_str_id [OF nn(1)] by (simp add: long_explanation_def)
  have actual: "(THAssertionFailed 0 ''a.c'' 7 ''x'' ''%s'' [ArgStr long_explanation] ?s
        :: unit outcome \<times> th_state)
     = (NoReturn,
        emit [EvPrintf (''$ Error: Assertion `x'' @ [CHR 0x27] @ '' failed. ''
                @ replicate 1023 CHR ''a'' @ '' at a.c:7\<newline>''),
              EvExit (- 1)] ?s)"
    unfolding THAssertionFailed_unfold [OF formatted_long_explanation] t
    by (simp add: THError_assertion [OF l1] a m1)
  have claimed: "(THError 0 ''a.c'' 7 ''Assertion `%s' failed. %s''
         [ArgStr ''x'', ArgStr long_explanation] ?s :: unit outcome \<times> th_state)
     = (NoReturn,
        emit [EvPrintf (''$ Error: Assertion `x'' @ [CHR 0x27] @ '' failed. ''
                @ long_explanation @ '' at a.c:7\<newline>''),
              EvExit (- 1)] ?s)"
    by (simp add: THError_assertion [OF l2] a m2)
  have "length (replicate 1023 CHR ''a'' @ '' at a.c:7\<newline>'')
      \<noteq> length (long_explanation @ '' at a.c:7\<newline>'')"
    by (simp add: long_explanation_def)
  then have "replicate 1023 CHR ''a'' @ '' at a.c:7\<newline>'' \<noteq> long_explanation @ '' at a.c:7\<newline>''"
    by metis
  then have "trace (snd (THAssertionFailed 0 ''a.c'' 7 ''x'' ''%s'' [ArgStr long_explanation] ?s
        :: unit outcome \<times> th_state))
     \<noteq> trace (snd (THError 0 ''a.c'' 7 ''Assertion `%s' failed. %s''
           [ArgStr ''x'', ArgStr long_explanation] ?s :: unit outcome \<times> th_state))"
    unfolding actual claimed by (simp add: emit_def)
  then have differ: "(THAssertionFailed 0 ''a.c'' 7 ''x'' ''%s'' [ArgStr long_explanation] ?s
        :: unit outcome \<times> th_state)
     \<noteq> THError 0 ''a.c'' 7 ''Assertion `%s' failed. %s'' [ArgStr ''x'', ArgStr long_explanation] ?s"
    by metis
  have len: "length long_explanation = 1024"
    by (simp add: long_explanation_def)
  show ?thesis
    using format_long_explanation len actual differ by blast
qed

text \<open>
  C9, amended: for every location, condition text, explanatory format string and
  arguments that \<^verbatim>\<open>vsnprintf\<close> formats, \<^verbatim>\<open>_THAssertionFailed\<close> renders
  "Assertion `<condition>' failed. <explanation>", where the explanation is the formatted
  explanation cut to its first 1023 characters and read as a C string (all of it when it
  is shorter than 1024), and passes it to \<^verbatim>\<open>_THError\<close> with the given location. For a
  condition text that leaves the rendered message within \<^verbatim>\<open>INT_MAX\<close> characters,
  \<^verbatim>\<open>_THError\<close> reports it to the handler in force and the call does not return.
\<close>

theorem THAssertionFailed_forwards:
  assumes "formatted s fmt args = Formatted out"
  shows "THAssertionFailed t file line exp fmt args s
           = THError t file line ''Assertion `%s' failed. %s''
               [ArgStr exp, ArgStr (take 1023 out)] s
       \<and> format ''Assertion `%s' failed. %s'' [ArgStr exp, ArgStr (take 1023 out)]
           = Some (''Assertion `'' @ c_str exp @ [CHR 0x27] @ '' failed. '' @ c_str (take 1023 out))
       \<and> (length (c_str exp) \<le> 2147482603 \<longrightarrow>
            THAssertionFailed t file line exp fmt args s
              = (NoReturn, emit (error_events (active_error_handler s t)
                  (report_text file line
                     (''Assertion `'' @ c_str exp @ [CHR 0x27] @ '' failed. ''
                        @ c_str (take 1023 out)))) s))
       \<and> (length out < 1024 \<and> NUL \<notin> set out \<longrightarrow> c_str (take 1023 out) = out)"
proof -
  note u = THAssertionFailed_unfold [OF assms, of t "file" line exp]
  have f: "format ''Assertion `%s' failed. %s'' [ArgStr exp, ArgStr (take 1023 out)]
           = Some (''Assertion `'' @ c_str exp @ [CHR 0x27] @ '' failed. '' @ c_str (take 1023 out))"
    using format_assertion [of exp "take 1023 out"] by (simp add: assertion_text_def)
  have k: "length (c_str (take 1023 out)) \<le> 1023"
    using length_c_str [of "take 1023 out"] by simp
  have e: "length (c_str exp) \<le> 2147482603 \<longrightarrow>
            THAssertionFailed t file line exp fmt args s
              = (NoReturn, emit (error_events (active_error_handler s t)
                  (report_text file line
                     (''Assertion `'' @ c_str exp @ [CHR 0x27] @ '' failed. ''
                        @ c_str (take 1023 out)))) s)"
  proof
    assume "length (c_str exp) \<le> 2147482603"
    with k have "21 + length (c_str exp) + length (c_str (take 1023 out)) \<le> 2147483647"
      by simp
    from THError_assertion [OF this, of t "file" line s]
    show "THAssertionFailed t file line exp fmt args s
              = (NoReturn, emit (error_events (active_error_handler s t)
                  (report_text file line
                     (''Assertion `'' @ c_str exp @ [CHR 0x27] @ '' failed. ''
                        @ c_str (take 1023 out)))) s)"
      unfolding u by (simp add: assertion_text_def)
  qed
  have short: "length out < 1024 \<and> NUL \<notin> set out \<longrightarrow> c_str (take 1023 out) = out"
    by (simp add: c_str_id)
  show ?thesis
    using u f e short by blast
qed

theorem THAssertionFailed_forwards_witness:
  "formatted (initial_state [] []) ''got %d'' [ArgInt 0] = Formatted ''got 0''
   \<and> (THAssertionFailed 0 ''a.c'' 7 ''n > 0'' ''got %d'' [ArgInt 0] (initial_state [] [])
        :: unit outcome \<times> th_state)
     = (NoReturn,
        emit [EvPrintf (''$ Error: Assertion `n > 0'' @ [CHR 0x27] @ '' failed. got 0 at a.c:7\<newline>''),
              EvExit (- 1)] (initial_state [] []))"
proof -
  have f: "formatted (initial_state [] []) ''got %d'' [ArgInt 0] = Formatted ''got 0''"
    by (simp add: formatted_def format_def c_str_def decimal_def digits.simps digit_char_def
          c_int_def)
  have a: "active_error_handler (initial_state [] []) 0 = (DefaultErrorHandlerFunction, 0)"
    by (simp add: active_error_handler_def initial_state_def)
  have c: "c_str ''n > 0'' = ''n > 0''" "c_str (take 1023 ''got 0'') = ''got 0''"
    by (simp_all add: c_str_def)
  have m: "report_text ''a.c'' 7 (''Assertion `'' @ ''n > 0'' @ [CHR 0x27] @ '' failed. '' @ ''got 0'')
     = ''Assertion `n > 0'' @ [CHR 0x27] @ '' failed. got 0 at a.c:7''"
    by (simp add: report_text_def error_message_def location_example c_int_def c_str_def)
  have l: "length ''n > 0'' \<le> (2147482603 :: nat)" by simp
  note w = THAssertionFailed_forwards [OF f, of 0 "''a.c''" 7 "''n > 0''",
      where ?'a = unit, unfolded c a error_events.simps m]
  have "(THAssertionFailed 0 ''a.c'' 7 ''n > 0'' ''got %d'' [ArgInt 0] (initial_state [] [])
        :: unit outcome \<times> th_state)
     = (NoReturn,
        emit [EvPrintf (''$ Error: '' @ (''Assertion `n > 0'' @ [CHR 0x27] @ '' failed. got 0 at a.c:7'')
                @ ''\<newline>''),
              EvExit (- 1)] (initial_state [] []))"
    using w l by blast
  then show ?thesis
    using f by simp
qed

section \<open>The descriptive buffer on examples\<close>

text \<open>
  C5 fails on the code. With a buffer of 64 bytes (the value of \<^verbatim>\<open>TH_DESC_BUFF_LEN\<close>) and the
  17 dimensions 1, ..., 1 (fifteen times), 1000, 1: after fifteen dimensions \<open>n\<close> is 61; the
  sixteenth is written with \<^verbatim>\<open>snprintf(str+61, 3, ...)\<close> and moves \<open>n\<close> to 65; the loop tests
  \<open>n >= L\<close> only at the start of a round, so the separator follows with
  \<^verbatim>\<open>snprintf(str+65, L-n, " x ")\<close>, where \<open>L-n\<close> is -1, a bound of \<^verbatim>\<open>SIZE_MAX\<close> as a
  \<^verbatim>\<open>size_t\<close>: four bytes are stored behind the end of the buffer, and no string of at most
  63 characters is produced.
\<close>

theorem THSizeDesc_writes_past_the_buffer:
  "THSizeDesc 64 [1, 1, 1, 1, 1, 1, 1, 1, 1, 1, 1, 1, 1, 1, 1, 1000, 1] 17 = Inl OutOfBounds"
  by code_simp

lemma THSizeDesc_cuts_a_description_that_fits:
  "length (size_desc [1, 1, 1, 1, 1, 1, 1, 1, 1, 1, 1, 1, 1, 1, 1, 1]) = 63
   \<and> map_sum id read_str (THSizeDesc 64 [1, 1, 1, 1, 1, 1, 1, 1, 1, 1, 1, 1, 1, 1, 1, 1] 16)
     = Inr (Some ''[1 x 1 x 1 x 1 x 1 x 1 x 1 x 1 x 1 x 1 x 1 x 1 x 1 x 1 x 1 ...]'')"
  by code_simp

lemma THSizeDesc_example:
  "map_sum id read_str (THSizeDesc 64 [2, 3, 4] 3) = Inr (Some ''[2 x 3 x 4]'')
   \<and> size_desc [2, 3, 4] = ''[2 x 3 x 4]''"
  by code_simp

section \<open>The descriptive buffer in general\<close>

text \<open>
  The loop keeps the buffer a terminated copy of what it has formatted so far, cut at
  \<open>L - 1\<close> characters, as long as no store leaves the buffer. A description of at most
  \<open>L - 2\<close> characters comes out whole; every other result that is produced is the first
  \<open>L - 5\<close> characters of the description followed by "...]".
\<close>

lemma holds_write:
  assumes "holds L R str" and "length R < L" and "NUL \<notin> set out"
  shows "\<exists>str'. snprintf str (int (length R)) (int L - int (length R)) out
            = Inr (str', int (length out)) \<and> holds L (R @ out) str'"
proof -
  from assms(1,2) obtain rest where str: "str = map Some R @ Some NUL # rest"
    and len: "length str = L" and nn: "NUL \<notin> set R"
    unfolding holds_def by auto
  from str len assms(2) have lr: "length rest = L - Suc (length R)" by auto
  let ?k = "L - Suc (length R)"
  let ?str' = "map Some (R @ take ?k out) @ Some NUL # drop (length (take ?k out)) rest"
  have w: "snprintf str (int (length R)) (int L - int (length R)) out
      = Inr (?str', int (length out))"
    unfolding str by (rule snprintf_append [OF assms(2) lr])
  have t: "take (L - 1) (R @ out) = R @ take ?k out"
    using assms(2) by simp
  have "holds L (R @ out) ?str'"
    unfolding holds_def t using assms(2,3) nn lr by auto
  with w show ?thesis by blast
qed

lemma holds_full:
  assumes "holds L R str" and "length R = L" and "NUL \<notin> set out"
  shows "snprintf str (int (length R)) (int L - int (length R)) out = Inr (str, int (length out))
     \<and> holds L (R @ out) str"
  using assms by (auto simp: snprintf_def holds_def)

lemma snprintf_beyond:
  assumes "length str = L" and "L < n"
  shows "snprintf str (int n) (int L - int n) out = Inl OutOfBounds"
  using assms by (auto simp: snprintf_def Let_def)

lemma pending_step:
  assumes "0 \<le> i" and "i < ndim"
  shows "pending sizes ndim (nat i) = piece sizes ndim (nat i) @ pending sizes ndim (nat (i + 1))"
proof -
  have "nat i < nat ndim" using assms by simp
  then have "[nat i ..< nat ndim] = nat i # [Suc (nat i) ..< nat ndim]"
    by (rule upt_conv_Cons)
  moreover have "nat (i + 1) = Suc (nat i)" using assms(1) by simp
  ultimately show ?thesis by (simp add: pending_def)
qed

lemma pending_done: "ndim \<le> i \<Longrightarrow> pending sizes ndim (nat i) = []"
  by (simp add: pending_def)

lemma loop_inv:
  assumes "THSizeDesc_loop (int L) sizes ndim i n str = Inr (n', str')"
    and "holds L R str" and "n = int (length R)" and "0 \<le> i"
  shows "\<exists>R'. holds L R' str' \<and> n' = int (length R')
           \<and> (\<exists>more. R @ pending sizes ndim (nat i) = R' @ more)
           \<and> (n' < int L \<longrightarrow> R' = R @ pending sizes ndim (nat i))"
  using assms
proof (induction "nat (ndim - i)" arbitrary: i n str R)
  case 0
  then have "\<not> i < ndim" by simp
  with 0 have "n' = n" "str' = str" "pending sizes ndim (nat i) = []"
    by (simp_all add: THSizeDesc_loop.simps [of _ _ _ i] pending_done)
  with 0 show ?case by auto
next
  case (Suc k)
  then have lt: "i < ndim" by linarith
  note run = Suc.prems(1)
  note inv = Suc.prems(2)
  note n = Suc.prems(3)
  note i0 = Suc.prems(4)
  show ?case
  proof (cases "int L \<le> n")
    case True
    with run lt have "n' = n" "str' = str"
      by (simp_all add: THSizeDesc_loop.simps [of _ _ _ i])
    with inv n True show ?thesis by auto
  next
    case False
    then have room: "length R < L" using n by simp
    have inside: "i < int (length sizes)"
      using run lt False i0 by (auto simp: THSizeDesc_loop.simps [of _ _ _ i] split: if_splits)
    let ?d = "decimal (sint (sizes ! nat i))"
    obtain str1 where w1: "snprintf str n (int L - n) ?d = Inr (str1, int (length ?d))"
      and inv1: "holds L (R @ ?d) str1"
      using holds_write [OF inv room decimal_no_NUL] n by blast
    have k: "k = nat (ndim - (i + 1))" using Suc.hyps(2) by linarith
    have i1: "0 \<le> i + 1" using i0 by simp
    show ?thesis
    proof (cases "i < ndim - 1")
      case sep: True
      then have p: "piece sizes ndim (nat i) = ?d @ '' x ''"
        using i0 by (simp add: piece_def)
      have n1: "n + int (length ?d) = int (length (R @ ?d))" using n by simp
      have nn: "NUL \<notin> set '' x ''" by simp
      consider (less) "length (R @ ?d) < L" | (eq) "length (R @ ?d) = L" | (more) "L < length (R @ ?d)"
        by linarith
      then obtain str2 where w2: "snprintf str1 (int (length (R @ ?d))) (int L - int (length (R @ ?d))) '' x ''
            = Inr (str2, int (length '' x ''))"
        and inv2: "holds L ((R @ ?d) @ '' x '') str2"
      proof cases
        case less
        from holds_write [OF inv1 less nn] that show ?thesis by blast
      next
        case eq
        from holds_full [OF inv1 eq nn] that show ?thesis by blast
      next
        case more
        have "length str1 = L" using inv1 by (simp add: holds_def)
        from snprintf_beyond [OF this more]
        have "snprintf str1 (int (length (R @ ?d))) (int L - int (length (R @ ?d))) '' x ''
            = Inl OutOfBounds" .
        with run lt False inside i0 w1 sep n1 have False
          by (simp add: THSizeDesc_loop.simps [of _ _ _ i])
        then show ?thesis ..
      qed
      have next_run: "THSizeDesc_loop (int L) sizes ndim (i + 1)
            (int (length ((R @ ?d) @ '' x ''))) str2 = Inr (n', str')"
        using run lt False inside i0 w1 sep n1 w2
        by (simp add: THSizeDesc_loop.simps [of _ _ _ i] ac_simps)
      from Suc.hyps(1) [OF k next_run inv2 refl i1]
      show ?thesis
        using pending_step [OF i0 lt, of sizes] p by simp
    next
      case last: False
      then have p: "piece sizes ndim (nat i) = ?d"
        using i0 by (simp add: piece_def)
      have next_run: "THSizeDesc_loop (int L) sizes ndim (i + 1) (int (length (R @ ?d))) str1
            = Inr (n', str')"
        using run lt False inside i0 w1 last n
        by (simp add: THSizeDesc_loop.simps [of _ _ _ i])
      from Suc.hyps(1) [OF k next_run inv1 refl i1]
      show ?thesis
        using pending_step [OF i0 lt, of sizes] p by simp
    qed
  qed
qed

lemma pending_join:
  assumes "i \<le> length sizes"
  shows "pending sizes (int (length sizes)) i
     = join_dims (map (\<lambda>d. decimal (sint d)) (drop i sizes))"
  using assms
proof (induction "length sizes - i" arbitrary: i)
  case 0
  then show ?case by (simp add: pending_def)
next
  case (Suc k)
  let ?n = "int (length sizes)"
  from Suc have lt: "i < length sizes" by simp
  then have d: "drop i sizes = sizes ! i # drop (Suc i) sizes"
    by (simp add: Cons_nth_drop_Suc)
  have step: "pending sizes ?n i = piece sizes ?n i @ pending sizes ?n (Suc i)"
    using pending_step [of "int i" ?n sizes] lt by (simp add: nat_add_distrib)
  have ih: "pending sizes ?n (Suc i) = join_dims (map (\<lambda>d. decimal (sint d)) (drop (Suc i) sizes))"
    using Suc.hyps(1) [of "Suc i"] Suc.hyps(2) lt by simp
  show ?case
  proof (cases "Suc i < length sizes")
    case True
    then obtain b r where br: "drop (Suc i) sizes = b # r"
      by (cases "drop (Suc i) sizes") simp_all
    from True have "piece sizes ?n i = decimal (sint (sizes ! i)) @ '' x ''"
      by (simp add: piece_def)
    then show ?thesis
      unfolding step ih d by (simp add: br)
  next
    case False
    with lt have e: "drop (Suc i) sizes = []" by simp
    from False have "piece sizes ?n i = decimal (sint (sizes ! i))"
      by (simp add: piece_def)
    then show ?thesis
      unfolding step ih d by (simp add: e)
  qed
qed

lemma holds_start:
  assumes "0 < L"
  shows "\<exists>str0. snprintf (uninit L) 0 (int L) ''['' = Inr (str0, 1) \<and> holds L ''['' str0"
  using snprintf_uninit [OF assms, of "''[''"] assms by (auto simp: holds_def min_def)

lemma holds_read:
  assumes "holds L R str" and "length R < L"
  shows "read_str str = Some R"
proof -
  from assms obtain rest where "str = map Some R @ Some NUL # rest" and "NUL \<notin> set R"
    unfolding holds_def by auto
  then show ?thesis by (simp add: read_str_terminated)
qed

lemma holds_ellipsis:
  assumes "holds L R str" and "5 \<le> L" and "L - 2 \<le> length R"
  shows "\<exists>str'. snprintf str (int L - 5) 5 ''...]'' = Inr (str', 4)
           \<and> read_str str' = Some (take (L - 5) R @ ''...]'')"
proof -
  from assms(1) have len: "length str = L" and nn: "NUL \<notin> set R"
    unfolding holds_def by auto
  from assms(1) obtain rest where str: "str = map Some (take (L - 1) R) @ Some NUL # rest"
    unfolding holds_def by blast
  have t: "take (L - 5) str = map Some (take (L - 5) R)"
  proof -
    define k where "k = L - 5"
    define xs where "xs = map Some (take (L - 1) R)"
    have "k \<le> length xs"
      unfolding k_def xs_def length_map length_take using assms(2,3) by arith
    then have "take k (xs @ Some NUL # rest) = take k xs"
      by simp
    moreover have "take k xs = map Some (take k (take (L - 1) R))"
      unfolding xs_def by (simp only: take_map)
    moreover have "take k (take (L - 1) R) = take k R"
      unfolding k_def by (simp add: min_def)
    ultimately show ?thesis
      unfolding str k_def xs_def by simp
  qed
  have off: "nat (int L - 5) = L - 5" by simp
  have w: "snprintf str (int L - 5) 5 ''...]''
      = Inr (map Some (take (L - 5) R @ ''...]'') @ Some NUL # [], 4)"
    using assms(2) len t by (simp add: snprintf_def poke_def off)
  have "NUL \<notin> set (take (L - 5) R @ ''...]'')"
    using nn by (auto dest: in_set_takeD)
  from read_str_terminated [OF this] w show ?thesis by simp
qed

lemma THSizeDesc_returns:
  assumes "5 \<le> L" and "ndim = int (length sizes)" and "THSizeDesc L sizes ndim = Inr buf"
  shows "read_str buf
     = Some (if length (size_desc sizes) \<le> L - 2 then size_desc sizes
             else take (L - 5) (size_desc sizes) @ ''...]'')"
proof -
  let ?W = "''['' @ join_dims (map (\<lambda>d. decimal (sint d)) sizes)"
  have D: "size_desc sizes = ?W @ '']''" by (simp add: size_desc_def)
  from assms(1) have "0 < L" by simp
  from holds_start [OF this] obtain str0
    where w0: "snprintf (uninit L) 0 (int L) ''['' = Inr (str0, 1)" and inv0: "holds L ''['' str0"
    by blast
  from assms(3) w0 obtain n str where run: "THSizeDesc_loop (int L) sizes ndim 0 1 str0 = Inr (n, str)"
    by (auto simp: THSizeDesc_def split: sum.splits)
  have W: "''['' @ pending sizes ndim (nat 0) = ?W"
    using pending_join [of 0 sizes] assms(2) by simp
  from loop_inv [OF run inv0] obtain R' more
    where inv: "holds L R' str" and n: "n = int (length R')"
      and pre: "?W = R' @ more" and whole: "n < int L \<longrightarrow> R' = ?W"
    unfolding W by auto
  show ?thesis
  proof (cases "n < int L - 2")
    case True
    then have R': "R' = ?W" using whole by simp
    from True n have room: "length R' < L" by simp
    have nn: "NUL \<notin> set '']''" by simp
    from holds_write [OF inv room nn] obtain str'
      where w: "snprintf str (int (length R')) (int L - int (length R')) '']'' = Inr (str', 1)"
        and inv': "holds L (R' @ '']'') str'"
      by auto
    have "buf = str'"
      using assms(3) w0 run True w n by (simp add: THSizeDesc_def)
    moreover have "length (R' @ '']'') < L" using True n by simp
    ultimately have "read_str buf = Some (R' @ '']'')"
      using holds_read [OF inv'] by simp
    moreover have "length (size_desc sizes) \<le> L - 2"
      unfolding D R' [symmetric] using True n by simp
    ultimately show ?thesis
      unfolding D R' [symmetric] by simp
  next
    case False
    then have long: "L - 2 \<le> length R'" using n by simp
    from holds_ellipsis [OF inv assms(1) long] obtain str'
      where w: "snprintf str (int L - 5) 5 ''...]'' = Inr (str', 4)"
        and r: "read_str str' = Some (take (L - 5) R' @ ''...]'')"
      by blast
    have "buf = str'"
      using assms(3) w0 run False w by (simp add: THSizeDesc_def)
    moreover have "take (L - 5) (size_desc sizes) = take (L - 5) R'"
      unfolding D pre using long by simp
    moreover have "\<not> length (size_desc sizes) \<le> L - 2"
      unfolding D pre using long assms(1) by simp
    ultimately show ?thesis using r by simp
  qed
qed

lemma loop_runs:
  assumes "holds L R str" and "n = int (length R)" and "0 \<le> i"
    and "ndim \<le> int (length sizes)"
    and "length (R @ pending sizes ndim (nat i)) \<le> L"
  shows "\<exists>n' str'. THSizeDesc_loop (int L) sizes ndim i n str = Inr (n', str')"
  using assms
proof (induction "nat (ndim - i)" arbitrary: i n str R)
  case 0
  then have "\<not> i < ndim" by simp
  then show ?case by (simp add: THSizeDesc_loop.simps [of _ _ _ i])
next
  case (Suc k)
  then have lt: "i < ndim" by linarith
  note inv = Suc.prems(1)
  note n = Suc.prems(2)
  note i0 = Suc.prems(3)
  note nd = Suc.prems(4)
  note short = Suc.prems(5)
  show ?case
  proof (cases "int L \<le> n")
    case True
    with lt show ?thesis by (simp add: THSizeDesc_loop.simps [of _ _ _ i])
  next
    case False
    then have room: "length R < L" using n by simp
    have inside: "i < int (length sizes)" using lt nd by simp
    let ?d = "decimal (sint (sizes ! nat i))"
    obtain str1 where w1: "snprintf str n (int L - n) ?d = Inr (str1, int (length ?d))"
      and inv1: "holds L (R @ ?d) str1"
      using holds_write [OF inv room decimal_no_NUL] n by blast
    have k: "k = nat (ndim - (i + 1))" using Suc.hyps(2) by linarith
    have i1: "0 \<le> i + 1" using i0 by simp
    note ps = pending_step [OF i0 lt, of sizes]
    show ?thesis
    proof (cases "i < ndim - 1")
      case sep: True
      then have p: "piece sizes ndim (nat i) = ?d @ '' x ''"
        using i0 by (simp add: piece_def)
      have n1: "n + int (length ?d) = int (length (R @ ?d))" using n by simp
      have nn: "NUL \<notin> set '' x ''" by simp
      have "length (R @ ?d) \<le> L" using short unfolding ps p by simp
      then consider (less) "length (R @ ?d) < L" | (eq) "length (R @ ?d) = L"
        by linarith
      then obtain str2 where w2: "snprintf str1 (int (length (R @ ?d))) (int L - int (length (R @ ?d))) '' x ''
            = Inr (str2, int (length '' x ''))"
        and inv2: "holds L ((R @ ?d) @ '' x '') str2"
      proof cases
        case less
        from holds_write [OF inv1 less nn] that show ?thesis by blast
      next
        case eq
        from holds_full [OF inv1 eq nn] that show ?thesis by blast
      qed
      have short2: "length (((R @ ?d) @ '' x '') @ pending sizes ndim (nat (i + 1))) \<le> L"
        using short unfolding ps p by simp
      have unfold: "THSizeDesc_loop (int L) sizes ndim i n str
          = THSizeDesc_loop (int L) sizes ndim (i + 1) (int (length ((R @ ?d) @ '' x ''))) str2"
        using lt False inside i0 w1 sep n1 w2
        by (simp add: THSizeDesc_loop.simps [of _ _ _ i] ac_simps)
      from Suc.hyps(1) [OF k inv2 refl i1 nd short2]
      show ?thesis unfolding unfold .
    next
      case last: False
      then have p: "piece sizes ndim (nat i) = ?d"
        using i0 by (simp add: piece_def)
      have short1: "length ((R @ ?d) @ pending sizes ndim (nat (i + 1))) \<le> L"
        using short unfolding ps p by simp
      have unfold: "THSizeDesc_loop (int L) sizes ndim i n str
          = THSizeDesc_loop (int L) sizes ndim (i + 1) (int (length (R @ ?d))) str1"
        using lt False inside i0 w1 last n
        by (simp add: THSizeDesc_loop.simps [of _ _ _ i])
      from Suc.hyps(1) [OF k inv1 refl i1 nd short1]
      show ?thesis unfolding unfold .
    qed
  qed
qed

lemma THSizeDesc_short:
  assumes "5 \<le> L" and "length (size_desc sizes) \<le> L - 2"
  shows "\<exists>buf. THSizeDesc L sizes (int (length sizes)) = Inr buf
           \<and> read_str buf = Some (size_desc sizes)"
proof -
  let ?ndim = "int (length sizes)"
  let ?W = "''['' @ join_dims (map (\<lambda>d. decimal (sint d)) sizes)"
  have D: "size_desc sizes = ?W @ '']''" by (simp add: size_desc_def)
  from assms(1) have "0 < L" by simp
  from holds_start [OF this] obtain str0
    where w0: "snprintf (uninit L) 0 (int L) ''['' = Inr (str0, 1)" and inv0: "holds L ''['' str0"
    by blast
  have W: "''['' @ pending sizes ?ndim (nat 0) = ?W"
    using pending_join [of 0 sizes] by simp
  have "length (''['' @ pending sizes ?ndim (nat 0)) \<le> L"
    unfolding W using assms(2) unfolding D by simp
  then have "\<exists>n str. THSizeDesc_loop (int L) sizes ?ndim 0 1 str0 = Inr (n, str)"
    by (intro loop_runs [OF inv0]) simp_all
  then obtain n str where run: "THSizeDesc_loop (int L) sizes ?ndim 0 1 str0 = Inr (n, str)"
    by blast
  from loop_inv [OF run inv0] obtain R' more
    where inv: "holds L R' str" and n: "n = int (length R')" and pre: "?W = R' @ more"
    unfolding W by auto
  have "length R' \<le> length ?W" unfolding pre by simp
  then have small: "n < int L - 2" using n assms unfolding D by simp
  then have room: "length R' < L" using n by simp
  have nn: "NUL \<notin> set '']''" by simp
  from holds_write [OF inv room nn] obtain str'
    where w: "snprintf str (int (length R')) (int L - int (length R')) '']'' = Inr (str', 1)"
    by auto
  have "THSizeDesc L sizes ?ndim = Inr str'"
    using w0 run small w n by (simp add: THSizeDesc_def)
  with THSizeDesc_returns [OF assms(1) refl this] assms(2) show ?thesis by simp
qed

end
